theory Spec2Isabelle
  imports Complex_Main "HOL-Library.Log_Nat"
begin

section \<open>LanceBot: the bidding-decision engine (src/bidding.py)\<close>

text \<open>
  The development embeds the three strategy classes and the \<open>BiddingManager\<close> of
  \<open>src/bidding.py\<close>.

  Conventions of the embedding.
  \<^item> Prices are Python floats, that is IEEE-754 double-precision numbers. A finite
    double is embedded as the rational number it denotes, next to the two infinities
    and NaN. Every arithmetic operation of the source rounds its exact result to the
    nearest double, ties to the even significand, and overflows to an infinity;
    comparisons with NaN are false. The two zeros are identified: the source never
    divides by a price nor prints its sign, so no operation tells them apart.
  \<^item> A decimal literal of the source, such as \<open>0.01\<close>, denotes the double nearest to
    it (\<open>py_float\<close>).
  \<^item> Python's \<open>round(x, 2)\<close> is correctly rounded: the exact value of the double is
    rounded to the nearest multiple of \<open>1/100\<close>, ties to the even multiple, and the
    result is the double nearest to that decimal; infinities and NaN are returned
    unchanged.
  \<^item> Every logger call becomes an event \<open>(level, message)\<close> returned by the function
    that makes it, in the order of emission.
  \<^item> An exception is a value of type \<open>error\<close>; a function that can raise returns
    \<open>error + 'a\<close>.
  \<^item> \<open>datetime.now()\<close> and \<open>random.randint\<close> are inputs: the clock reading \<open>now\<close>
    and the function \<open>rnd\<close>, where \<open>rnd i\<close> is the value drawn in iteration \<open>i\<close> of
    the threshold loop.
\<close>

subsection \<open>Python floats\<close>

datatype pyfloat = Finite rat | PosInf | NegInf | NaN

text \<open>The comparisons \<open><=\<close> and \<open><\<close> of two floats (\<open>a > b\<close> is \<open>b < a\<close>).\<close>

fun float_le :: "pyfloat \<Rightarrow> pyfloat \<Rightarrow> bool" where
  "float_le NaN y = False"
| "float_le x NaN = False"
| "float_le NegInf y = True"
| "float_le x PosInf = True"
| "float_le (Finite a) (Finite b) = (a \<le> b)"
| "float_le x y = False"

fun float_lt :: "pyfloat \<Rightarrow> pyfloat \<Rightarrow> bool" where
  "float_lt NaN y = False"
| "float_lt x NaN = False"
| "float_lt PosInf y = False"
| "float_lt x NegInf = False"
| "float_lt (Finite a) (Finite b) = (a < b)"
| "float_lt x y = True"

instantiation pyfloat :: ord
begin

definition less_eq_pyfloat :: "pyfloat \<Rightarrow> pyfloat \<Rightarrow> bool" where
  "less_eq_pyfloat = float_le"

definition less_pyfloat :: "pyfloat \<Rightarrow> pyfloat \<Rightarrow> bool" where
  "less_pyfloat = float_lt"

instance ..

end

text \<open>Rounding a rational to the nearest integer, ties to the even one.\<close>

definition round_half_even :: "rat \<Rightarrow> int" where
  "round_half_even y =
     (let f = \<lfloor>y\<rfloor>; r = y - of_int f
      in if r < 1 / 2 then f
         else if 1 / 2 < r then f + 1
         else if even f then f else f + 1)"

text \<open>
  Rounding a rational to the nearest double. For \<open>a > 0\<close>, \<open>float_exponent a\<close> is the
  integer \<open>e\<close> with \<open>2^e \<le> a < 2^(e+1)\<close>. A double has 53 significant bits and its
  least exponent is \<open>-1074\<close>, so the doubles near \<open>a\<close> are the multiples of \<open>2^q\<close> with
  \<open>q = max (e - 52) (-1074)\<close>. A rounded magnitude of \<open>2^1024\<close> or more, that is
  one whose exponent is at least 1024, overflows.
\<close>

definition float_exponent :: "rat \<Rightarrow> int" where
  "float_exponent a =
     (case quotient_of a of
        (p, q) \<Rightarrow>
          (let d = bitlen p - bitlen q
           in if 2 powi d \<le> a then d else d - 1))"

definition round_to_double :: "rat \<Rightarrow> rat" where
  "round_to_double x =
     (if x = 0 then 0
      else
        (let a = \<bar>x\<bar>;
             q = max (float_exponent a - 52) (- 1074);
             r = of_int (round_half_even (a / 2 powi q)) * 2 powi q
         in if 0 < x then r else - r))"

definition fround :: "rat \<Rightarrow> pyfloat" where
  "fround x =
     (let r = round_to_double x
      in if r \<noteq> 0 \<and> 1024 \<le> float_exponent \<bar>r\<bar>
         then (if 0 < r then PosInf else NegInf)
         else Finite r)"

text \<open>A decimal literal of the source.\<close>

definition py_float :: "rat \<Rightarrow> pyfloat" where
  "py_float q = fround q"

text \<open>The operations \<open>x - y\<close>, \<open>x * y\<close> and \<open>x / 100\<close> that the source uses.\<close>

fun float_sub :: "pyfloat \<Rightarrow> pyfloat \<Rightarrow> pyfloat" where
  "float_sub NaN y = NaN"
| "float_sub x NaN = NaN"
| "float_sub (Finite a) (Finite b) = fround (a - b)"
| "float_sub (Finite a) PosInf = NegInf"
| "float_sub (Finite a) NegInf = PosInf"
| "float_sub PosInf PosInf = NaN"
| "float_sub PosInf y = PosInf"
| "float_sub NegInf NegInf = NaN"
| "float_sub NegInf y = NegInf"

fun float_sign :: "pyfloat \<Rightarrow> int" where
  "float_sign (Finite a) = (if a = 0 then 0 else if 0 < a then 1 else - 1)"
| "float_sign PosInf = 1"
| "float_sign NegInf = - 1"
| "float_sign NaN = 0"

fun float_mul :: "pyfloat \<Rightarrow> pyfloat \<Rightarrow> pyfloat" where
  "float_mul NaN y = NaN"
| "float_mul x NaN = NaN"
| "float_mul (Finite a) (Finite b) = fround (a * b)"
| "float_mul x y =
     (let s = float_sign x * float_sign y
      in if s = 0 then NaN else if 0 < s then PosInf else NegInf)"

definition float_div_100 :: "pyfloat \<Rightarrow> pyfloat" where
  "float_div_100 x = (case x of Finite a \<Rightarrow> fround (a / 100) | _ \<Rightarrow> x)"

subsection \<open>Rounding to two decimals\<close>

definition py_round2 :: "pyfloat \<Rightarrow> pyfloat" where
  "py_round2 x =
     (case x of
        Finite a \<Rightarrow> fround (of_int (round_half_even (a * 100)) / 100)
      | _ \<Rightarrow> x)"

subsection \<open>Events and errors\<close>

datatype level = INFO | WARNING

datatype message =
    Calculado_lance pyfloat pyfloat
  | Ja_somos_menor_preco pyfloat
  | Preco_abaixo_do_minimo pyfloat pyfloat
  | Lance_agressivo_final pyfloat
  | Dando_lance_programado int
  | Licitacao_registrada string "string option"
  | Processar_nao_registrada string
  | Maximo_de_lances_atingido string
  | Lance_processado string pyfloat
  | Licitacao_removida string
  | Remover_nao_registrada string

type_synonym event = "level \<times> message"

datatype error = TypeError | ValueError | NotImplementedError

subsection \<open>MinimalDecreaseStrategy\<close>

record MinimalDecreaseStrategy =
  min_decrease_value :: pyfloat
  min_decrease_percent :: pyfloat

text \<open>The constructor's defaults: \<open>min_decrease_value = 0.01\<close>, \<open>min_decrease_percent = 0.0\<close>.\<close>

definition MinimalDecreaseStrategy_default :: MinimalDecreaseStrategy where
  "MinimalDecreaseStrategy_default =
     \<lparr>min_decrease_value = py_float (1 / 100), min_decrease_percent = Finite 0\<rparr>"

definition MinimalDecreaseStrategy_calculate_bid ::
  "MinimalDecreaseStrategy \<Rightarrow> pyfloat \<Rightarrow> event list \<times> pyfloat" where
  "MinimalDecreaseStrategy_calculate_bid self current_price =
     (let percent_decrease =
            float_mul current_price (float_div_100 (min_decrease_percent self));
          new_bid =
            (if percent_decrease > min_decrease_value self
                \<and> min_decrease_percent self > Finite 0
             then float_sub current_price percent_decrease
             else float_sub current_price (min_decrease_value self));
          new_bid = py_round2 new_bid
      in ([(INFO, Calculado_lance new_bid current_price)], new_bid))"

definition MinimalDecreaseStrategy_should_bid ::
  "pyfloat \<Rightarrow> pyfloat option \<Rightarrow> pyfloat option \<Rightarrow> event list \<times> bool" where
  "MinimalDecreaseStrategy_should_bid current_price my_last_bid min_price =
     (if my_last_bid \<noteq> None \<and> the my_last_bid \<le> current_price
      then ([(INFO, Ja_somos_menor_preco (the my_last_bid))], False)
      else if min_price \<noteq> None \<and> current_price \<le> the min_price
      then ([(INFO, Preco_abaixo_do_minimo current_price (the min_price))], False)
      else ([], True))"

subsection \<open>TimedStrategy\<close>

record TimedStrategy =
  bid_times :: "int list"
  random_delay :: bool
  max_random_delay :: int
  last_bid_time_index :: int

text \<open>
  The constructor: \<open>bid_times or [60, 30, 10, 3]\<close> replaces a missing or an empty list
  by the default one, and the cursor starts at \<open>-1\<close>.
\<close>

definition TimedStrategy_init :: "int list option \<Rightarrow> bool \<Rightarrow> int \<Rightarrow> TimedStrategy" where
  "TimedStrategy_init bts rd mrd =
     \<lparr>bid_times = (case bts of None \<Rightarrow> [60, 30, 10, 3]
                     | Some xs \<Rightarrow> if xs = [] then [60, 30, 10, 3] else xs),
      random_delay = rd,
      max_random_delay = mrd,
      last_bid_time_index = -1\<rparr>"

definition TimedStrategy_calculate_bid ::
  "TimedStrategy \<Rightarrow> pyfloat \<Rightarrow> pyfloat \<Rightarrow> pyfloat \<Rightarrow> bool \<Rightarrow> event list \<times> pyfloat" where
  "TimedStrategy_calculate_bid self current_price mdv mdp aggressive_final_bid =
     (let base_strategy = \<lparr>min_decrease_value = mdv, min_decrease_percent = mdp\<rparr>
      in if aggressive_final_bid
            \<and> last_bid_time_index self \<ge> int (length (bid_times self)) - 2
         then
           (let percent_decrease =
                  float_mul current_price (float_div_100 (float_mul mdp (Finite 2)));
                value_decrease = float_mul mdv (Finite 2);
                new_bid =
                  (if percent_decrease > value_decrease \<and> mdp > Finite 0
                   then float_sub current_price percent_decrease
                   else float_sub current_price value_decrease);
                new_bid = py_round2 new_bid
            in ([(INFO, Lance_agressivo_final new_bid)], new_bid))
         else MinimalDecreaseStrategy_calculate_bid base_strategy current_price)"

text \<open>
  The loop \<open>for i, bid_time in enumerate(self.bid_times)\<close>: \<open>i\<close> counts the iterations,
  the result is the index at which the loop returns \<open>True\<close>, or \<open>None\<close> when it runs to
  its end. \<open>random.randint(0, m)\<close> raises \<open>ValueError\<close> for \<open>m < 0\<close>.
\<close>

fun scan_bid_times ::
  "bool \<Rightarrow> int \<Rightarrow> (nat \<Rightarrow> int) \<Rightarrow> int \<Rightarrow> int \<Rightarrow> nat \<Rightarrow> int list \<Rightarrow> error + nat option" where
  "scan_bid_times rd mrd rnd seconds_remaining last_index i [] = Inr None"
| "scan_bid_times rd mrd rnd seconds_remaining last_index i (bid_time # rest) =
     (if rd \<and> mrd < 0 then Inl ValueError
      else
        (let adjusted_bid_time = (if rd then bid_time + rnd i else bid_time)
         in if seconds_remaining \<le> adjusted_bid_time \<and> int i > last_index
            then Inr (Some i)
            else scan_bid_times rd mrd rnd seconds_remaining last_index (Suc i) rest))"

definition TimedStrategy_should_bid ::
  "TimedStrategy \<Rightarrow> (nat \<Rightarrow> int) \<Rightarrow> int \<Rightarrow> pyfloat \<Rightarrow> pyfloat option \<Rightarrow> pyfloat option
     \<Rightarrow> event list \<times> (error + bool \<times> TimedStrategy)" where
  "TimedStrategy_should_bid self rnd seconds_remaining current_price my_last_bid min_price =
     (case MinimalDecreaseStrategy_should_bid current_price my_last_bid min_price of
        (ev, ok) \<Rightarrow>
          if \<not> ok then (ev, Inr (False, self))
          else
            (case scan_bid_times (random_delay self) (max_random_delay self) rnd
                    seconds_remaining (last_bid_time_index self) 0 (bid_times self) of
               Inl e \<Rightarrow> (ev, Inl e)
             | Inr None \<Rightarrow> (ev, Inr (False, self))
             | Inr (Some i) \<Rightarrow>
                 (ev @ [(INFO, Dando_lance_programado seconds_remaining)],
                  Inr (True, self\<lparr>last_bid_time_index := int i\<rparr>))))"

subsection \<open>The strategy bound to an auction\<close>

text \<open>
  An auction holds a reference to an instance of one of the three classes. The embedding
  stores the instance in the auction record, so every auction owns its strategy: one
  instance bound to two auctions is not represented.
\<close>

datatype strategy =
    BiddingStrategy
  | MinimalDecrease MinimalDecreaseStrategy
  | Timed TimedStrategy

text \<open>
  The dictionary \<open>strategy_params\<close> that \<open>process_bid\<close> passes to both methods as
  keyword arguments. A key that may be absent is an option; \<open>my_last_bid\<close> and
  \<open>min_price\<close> are always present and hold an optional price. Keys that neither class
  reads end in the methods' \<open>**kwargs\<close> and are left out.
\<close>

record strategy_params =
  sp_current_price :: pyfloat
  sp_my_last_bid :: "pyfloat option"
  sp_min_price :: "pyfloat option"
  sp_seconds_remaining :: "int option"
  sp_min_decrease_value :: "pyfloat option"
  sp_min_decrease_percent :: "pyfloat option"
  sp_aggressive_final_bid :: "bool option"

text \<open>
  \<open>strategy.should_bid(**strategy_params)\<close>. The base class raises
  \<open>NotImplementedError\<close>; \<open>TimedStrategy.should_bid\<close> has the mandatory parameter
  \<open>seconds_remaining\<close>, so the call raises \<open>TypeError\<close> when the key is absent.
\<close>

fun should_bid ::
  "strategy \<Rightarrow> (nat \<Rightarrow> int) \<Rightarrow> strategy_params \<Rightarrow> event list \<times> (error + bool \<times> strategy)" where
  "should_bid BiddingStrategy rnd p = ([], Inl NotImplementedError)"
| "should_bid (MinimalDecrease s) rnd p =
     (case MinimalDecreaseStrategy_should_bid
             (sp_current_price p) (sp_my_last_bid p) (sp_min_price p) of
        (ev, ok) \<Rightarrow> (ev, Inr (ok, MinimalDecrease s)))"
| "should_bid (Timed t) rnd p =
     (case sp_seconds_remaining p of
        None \<Rightarrow> ([], Inl TypeError)
      | Some secs \<Rightarrow>
          (case TimedStrategy_should_bid t rnd secs
                  (sp_current_price p) (sp_my_last_bid p) (sp_min_price p) of
             (ev, Inl e) \<Rightarrow> (ev, Inl e)
           | (ev, Inr (ok, t')) \<Rightarrow> (ev, Inr (ok, Timed t'))))"

text \<open>
  \<open>strategy.calculate_bid(**strategy_params)\<close>. \<open>TimedStrategy.calculate_bid\<close> reads
  \<open>min_decrease_value\<close>, \<open>min_decrease_percent\<close> and \<open>aggressive_final_bid\<close> from
  the keywords, with the defaults \<open>0.01\<close>, \<open>0.0\<close> and \<open>False\<close>.
\<close>

fun calculate_bid :: "strategy \<Rightarrow> strategy_params \<Rightarrow> event list \<times> (error + pyfloat)" where
  "calculate_bid BiddingStrategy p = ([], Inl NotImplementedError)"
| "calculate_bid (MinimalDecrease s) p =
     (case MinimalDecreaseStrategy_calculate_bid s (sp_current_price p) of
        (ev, v) \<Rightarrow> (ev, Inr v))"
| "calculate_bid (Timed t) p =
     (case TimedStrategy_calculate_bid t (sp_current_price p)
             (case sp_min_decrease_value p of None \<Rightarrow> py_float (1 / 100) | Some d \<Rightarrow> d)
             (case sp_min_decrease_percent p of None \<Rightarrow> Finite 0 | Some d \<Rightarrow> d)
             (case sp_aggressive_final_bid p of None \<Rightarrow> False | Some b \<Rightarrow> b) of
        (ev, v) \<Rightarrow> (ev, Inr v))"

subsection \<open>BiddingManager\<close>

record bid =
  bid_value :: pyfloat
  bid_timestamp :: nat
  bid_current_price :: pyfloat

record auction =
  strategy :: strategy
  min_price :: "pyfloat option"
  max_bids :: "int option"
  bids_count :: int
  last_bid :: "pyfloat option"
  item_description :: "string option"
  start_time :: nat
  bid_history :: "bid list"

record BiddingManager =
  active_auctions :: "string \<rightharpoonup> auction"

definition BiddingManager_init :: BiddingManager where
  "BiddingManager_init = \<lparr>active_auctions = Map.empty\<rparr>"

definition register_auction ::
  "BiddingManager \<Rightarrow> nat \<Rightarrow> string \<Rightarrow> strategy \<Rightarrow> pyfloat option \<Rightarrow> int option \<Rightarrow> string option
     \<Rightarrow> event list \<times> BiddingManager" where
  "register_auction self now auction_id strat mp mb descr =
     ([(INFO, Licitacao_registrada auction_id descr)],
      self\<lparr>active_auctions := (active_auctions self)(auction_id \<mapsto>
        \<lparr>strategy = strat,
         min_price = mp,
         max_bids = mb,
         bids_count = 0,
         last_bid = None,
         item_description = descr,
         start_time = now,
         bid_history = []\<rparr>)\<rparr>)"

text \<open>
  The extra keyword arguments \<open>**kwargs\<close> of \<open>process_bid\<close>, merged into the
  parameters by \<open>strategy_params.update(kwargs)\<close>. \<open>current_price\<close> and
  \<open>seconds_remaining\<close> are named parameters of \<open>process_bid\<close> and cannot occur among
  them; \<open>my_last_bid\<close> and \<open>min_price\<close> can, and then replace the auction's values.
\<close>

record kwargs =
  kw_my_last_bid :: "pyfloat option option"
  kw_min_price :: "pyfloat option option"
  kw_min_decrease_value :: "pyfloat option"
  kw_min_decrease_percent :: "pyfloat option"
  kw_aggressive_final_bid :: "bool option"

definition no_kwargs :: kwargs where
  "no_kwargs =
     \<lparr>kw_my_last_bid = None, kw_min_price = None, kw_min_decrease_value = None,
      kw_min_decrease_percent = None, kw_aggressive_final_bid = None\<rparr>"

definition assemble_params :: "auction \<Rightarrow> pyfloat \<Rightarrow> int option \<Rightarrow> kwargs \<Rightarrow> strategy_params" where
  "assemble_params a current_price seconds_remaining kw =
     \<lparr>sp_current_price = current_price,
      sp_my_last_bid = (case kw_my_last_bid kw of None \<Rightarrow> last_bid a | Some v \<Rightarrow> v),
      sp_min_price = (case kw_min_price kw of None \<Rightarrow> min_price a | Some v \<Rightarrow> v),
      sp_seconds_remaining = seconds_remaining,
      sp_min_decrease_value = kw_min_decrease_value kw,
      sp_min_decrease_percent = kw_min_decrease_percent kw,
      sp_aggressive_final_bid = kw_aggressive_final_bid kw\<rparr>"

text \<open>
  \<open>process_bid\<close> returns the events, the outcome (\<open>Inl\<close> an exception that reaches
  the caller, \<open>Inr None\<close> for "no bid", \<open>Inr (Some v)\<close> for the bid \<open>v\<close>) and the
  manager after the call. \<open>should_bid\<close> mutates the strategy in place, so the strategy
  it returns is stored whatever it answers.
\<close>

definition process_bid ::
  "BiddingManager \<Rightarrow> nat \<Rightarrow> (nat \<Rightarrow> int) \<Rightarrow> string \<Rightarrow> pyfloat \<Rightarrow> int option \<Rightarrow> kwargs
     \<Rightarrow> event list \<times> (error + pyfloat option) \<times> BiddingManager" where
  "process_bid self now rnd auction_id current_price seconds_remaining kw =
     (case active_auctions self auction_id of
        None \<Rightarrow> ([(WARNING, Processar_nao_registrada auction_id)], Inr None, self)
      | Some a \<Rightarrow>
          if max_bids a \<noteq> None \<and> bids_count a \<ge> the (max_bids a)
          then ([(INFO, Maximo_de_lances_atingido auction_id)], Inr None, self)
          else
            (let params = assemble_params a current_price seconds_remaining kw
             in case should_bid (strategy a) rnd params of
                  (ev1, Inl e) \<Rightarrow> (ev1, Inl e, self)
                | (ev1, Inr (ok, strat')) \<Rightarrow>
                    (let a1 = a\<lparr>strategy := strat'\<rparr>
                     in if \<not> ok
                        then (ev1, Inr None,
                              self\<lparr>active_auctions := (active_auctions self)(auction_id \<mapsto> a1)\<rparr>)
                        else
                          (case calculate_bid strat' params of
                             (ev2, Inl e) \<Rightarrow>
                               (ev1 @ ev2, Inl e,
                                self\<lparr>active_auctions :=
                                  (active_auctions self)(auction_id \<mapsto> a1)\<rparr>)
                           | (ev2, Inr v) \<Rightarrow>
                               (let a2 = a1\<lparr>last_bid := Some v,
                                            bids_count := bids_count a1 + 1,
                                            bid_history := bid_history a1 @
                                              [\<lparr>bid_value = v, bid_timestamp = now,
                                                bid_current_price = current_price\<rparr>]\<rparr>
                                in (ev1 @ ev2 @ [(INFO, Lance_processado auction_id v)],
                                    Inr (Some v),
                                    self\<lparr>active_auctions :=
                                      (active_auctions self)(auction_id \<mapsto> a2)\<rparr>))))))"

definition remove_auction :: "BiddingManager \<Rightarrow> string \<Rightarrow> event list \<times> bool \<times> BiddingManager" where
  "remove_auction self auction_id =
     (if active_auctions self auction_id \<noteq> None
      then ([(INFO, Licitacao_removida auction_id)], True,
            self\<lparr>active_auctions := (active_auctions self)(auction_id := None)\<rparr>)
      else ([(WARNING, Remover_nao_registrada auction_id)], False, self))"

text \<open>
  A sequence of \<open>process_bid\<close> calls on one manager. A call that raises leaves the
  manager as \<open>process_bid\<close> returns it, and the next call goes on from there.
\<close>

record bid_call =
  call_now :: nat
  call_rnd :: "nat \<Rightarrow> int"
  call_id :: string
  call_price :: pyfloat
  call_seconds :: "int option"
  call_kwargs :: kwargs

fun process_bids ::
  "BiddingManager \<Rightarrow> bid_call list \<Rightarrow> (error + pyfloat option) list \<times> BiddingManager" where
  "process_bids self [] = ([], self)"
| "process_bids self (c # cs) =
     (case process_bid self (call_now c) (call_rnd c) (call_id c) (call_price c)
             (call_seconds c) (call_kwargs c) of
        (ev, r, self') \<Rightarrow>
          (case process_bids self' cs of (rs, self'') \<Rightarrow> (r # rs, self'')))"

section \<open>Vocabulary of the statements\<close>

subsection \<open>The decrement of MinimalDecreasePolicy.calculate_bid\<close>

text \<open>
  The decrement in the order of the specification's sentence (the percentage condition
  first), in double arithmetic, with the percentage divided by 100 before it is
  multiplied by the price: \<open>percent_decrease = current_price * (min_decrease_percent / 100)\<close>;
  it is taken if \<open>min_decrease_percent > 0\<close> and \<open>percent_decrease > min_decrease_value\<close>,
  and \<open>min_decrease_value\<close> is taken otherwise.
\<close>

definition spec_decrement :: "MinimalDecreaseStrategy \<Rightarrow> pyfloat \<Rightarrow> pyfloat" where
  "spec_decrement self current_price =
     (let percent_decrease =
            float_mul current_price (float_div_100 (min_decrease_percent self))
      in if min_decrease_percent self > Finite 0 \<and> percent_decrease > min_decrease_value self
         then percent_decrease
         else min_decrease_value self)"

text \<open>
  Two readings of the formula \<open>round(current_price - d, 2)\<close> with
  \<open>d = current_price * min_decrease_percent / 100\<close> as it is written. The first one
  evaluates it in double arithmetic from left to right, the product before the
  division. The second one evaluates it on the decimal values in exact arithmetic,
  rounding ties to the even cent.
\<close>

definition left_to_right_bid :: "MinimalDecreaseStrategy \<Rightarrow> pyfloat \<Rightarrow> pyfloat" where
  "left_to_right_bid self current_price =
     (let percent_decrease =
            float_div_100 (float_mul current_price (min_decrease_percent self));
          d = (if min_decrease_percent self > Finite 0
                  \<and> percent_decrease > min_decrease_value self
               then percent_decrease
               else min_decrease_value self)
      in py_round2 (float_sub current_price d))"

definition decimal_bid :: "rat \<Rightarrow> rat \<Rightarrow> rat \<Rightarrow> rat" where
  "decimal_bid mdv mdp current_price =
     (let percent_decrease = current_price * mdp / 100;
          d = (if mdp > 0 \<and> percent_decrease > mdv then percent_decrease else mdv)
      in of_int (round_half_even ((current_price - d) * 100)) / 100)"

subsection \<open>The invariants of an auction record\<close>

definition count_within_cap :: "auction \<Rightarrow> bool" where
  "count_within_cap a = (case max_bids a of None \<Rightarrow> True | Some k \<Rightarrow> bids_count a \<le> k)"

definition count_is_history_length :: "auction \<Rightarrow> bool" where
  "count_is_history_length a = (bids_count a = int (length (bid_history a)))"

definition last_bid_is_latest :: "auction \<Rightarrow> bool" where
  "last_bid_is_latest a =
     (last_bid a = (if bid_history a = [] then None
                    else Some (bid_value (last (bid_history a)))))"



subsection \<open>The threshold scan of a TimedStrategy\<close>

text \<open>
  \<open>effective_threshold\<close> is \<open>adjusted_bid_time\<close> of iteration \<open>i\<close>; \<open>fires_at\<close> is the
  condition under which the loop returns \<open>True\<close> in iteration \<open>i\<close>. A sequence of
  \<open>should_bid\<close> calls on one instance is run by \<open>fired_indices\<close>, which collects the
  cursor after every call that answered \<open>True\<close>; a call that raises changes nothing.
\<close>

definition effective_threshold :: "TimedStrategy \<Rightarrow> (nat \<Rightarrow> int) \<Rightarrow> nat \<Rightarrow> int" where
  "effective_threshold t rnd i =
     (if random_delay t then bid_times t ! i + rnd i else bid_times t ! i)"

definition fires_at :: "TimedStrategy \<Rightarrow> (nat \<Rightarrow> int) \<Rightarrow> int \<Rightarrow> nat \<Rightarrow> bool" where
  "fires_at t rnd secs i \<longleftrightarrow>
     i < length (bid_times t) \<and> last_bid_time_index t < int i
     \<and> secs \<le> effective_threshold t rnd i"

record timed_call =
  tc_rnd :: "nat \<Rightarrow> int"
  tc_seconds :: int
  tc_price :: pyfloat
  tc_my_last_bid :: "pyfloat option"
  tc_min_price :: "pyfloat option"

fun fired_indices :: "TimedStrategy \<Rightarrow> timed_call list \<Rightarrow> int list \<times> TimedStrategy" where
  "fired_indices t [] = ([], t)"
| "fired_indices t (c # cs) =
     (case TimedStrategy_should_bid t (tc_rnd c) (tc_seconds c) (tc_price c)
             (tc_my_last_bid c) (tc_min_price c) of
        (ev, Inl e) \<Rightarrow> fired_indices t cs
      | (ev, Inr (ok, t')) \<Rightarrow>
          (case fired_indices t' cs of
             (fired, t'') \<Rightarrow>
               ((if ok then [last_bid_time_index t'] else []) @ fired, t'')))"

text \<open>
  The same sequence call by call: the \<open>seconds_remaining\<close> of the call, its answer,
  and the cursor after it.
\<close>

fun scan_trace :: "TimedStrategy \<Rightarrow> timed_call list \<Rightarrow> (int \<times> (error + bool) \<times> int) list" where
  "scan_trace t [] = []"
| "scan_trace t (c # cs) =
     (case TimedStrategy_should_bid t (tc_rnd c) (tc_seconds c) (tc_price c)
             (tc_my_last_bid c) (tc_min_price c) of
        (ev, Inl e) \<Rightarrow> (tc_seconds c, Inl e, last_bid_time_index t) # scan_trace t cs
      | (ev, Inr (ok, t')) \<Rightarrow>
          (tc_seconds c, Inr ok, last_bid_time_index t') # scan_trace t' cs)"

subsection \<open>Which calls of a sequence were accepted\<close>

definition accepted_seconds :: "bid_call list \<Rightarrow> (error + pyfloat option) list \<Rightarrow> int option list" where
  "accepted_seconds cs rs =
     map (\<lambda>(c, r). call_seconds c)
       (filter (\<lambda>(c, r). case r of Inr (Some v) \<Rightarrow> True | _ \<Rightarrow> False) (zip cs rs))"

section \<open>Concrete scenarios\<close>

text \<open>Scenario C of the specification: a timed auction, floor 90.0, price constant at 100.0.\<close>

definition scenario_C_strategy :: TimedStrategy where
  "scenario_C_strategy = TimedStrategy_init (Some [60, 30, 10, 3]) False 5"

definition scenario_C_manager :: BiddingManager where
  "scenario_C_manager =
     snd (register_auction BiddingManager_init 0 ''C'' (Timed scenario_C_strategy)
            (Some (Finite 90)) None None)"

definition scenario_C_calls :: "bid_call list" where
  "scenario_C_calls =
     map (\<lambda>s. \<lparr>call_now = 1, call_rnd = (\<lambda>i. 0), call_id = ''C'', call_price = Finite 100,
                call_seconds = Some s, call_kwargs = no_kwargs\<rparr>)
       [120, 60, 40, 30, 15, 10, 5, 3, 1]"

definition scenario_C_after_bid :: BiddingManager where
  "scenario_C_after_bid = snd (process_bids scenario_C_manager (take 2 scenario_C_calls))"

definition scenario_C_policy_calls :: "timed_call list" where
  "scenario_C_policy_calls =
     map (\<lambda>s. \<lparr>tc_rnd = (\<lambda>i. 0), tc_seconds = s, tc_price = Finite 100,
                tc_my_last_bid = None, tc_min_price = Some (Finite 90)\<rparr>)
       [120, 60, 40, 30, 15, 10, 5, 3, 1]"

text \<open>
  Scenario D: \<open>max_bids = 1\<close>, a minimal-decrease strategy with the default
  configuration; the first call, at 100.0, is accepted.
\<close>

definition scenario_D_registered :: BiddingManager where
  "scenario_D_registered =
     snd (register_auction BiddingManager_init 0 ''D''
            (MinimalDecrease MinimalDecreaseStrategy_default) (Some (Finite 90)) (Some 1) None)"

definition scenario_D_after_bid :: BiddingManager where
  "scenario_D_after_bid =
     snd (snd (process_bid scenario_D_registered 1 (\<lambda>i. 0) ''D'' (Finite 100) None no_kwargs))"

definition scenario_D_calls :: "bid_call list" where
  "scenario_D_calls =
     [\<lparr>call_now = 1, call_rnd = (\<lambda>i. 0), call_id = ''D'', call_price = Finite 100,
       call_seconds = None, call_kwargs = no_kwargs\<rparr>,
      \<lparr>call_now = 2, call_rnd = (\<lambda>i. 0), call_id = ''D'', call_price = py_float (999 / 10),
       call_seconds = None, call_kwargs = no_kwargs\<rparr>]"

text \<open>A second registration under the identifier of an auction that already holds a bid.\<close>

definition duplicate_registered :: BiddingManager where
  "duplicate_registered =
     snd (register_auction scenario_D_after_bid 2 ''D''
            (MinimalDecrease MinimalDecreaseStrategy_default) (Some (Finite 80)) None None)"

text \<open>An auction registered with \<open>max_bids = -1\<close>, and one call on it.\<close>

definition negative_cap_manager :: BiddingManager where
  "negative_cap_manager =
     snd (register_auction BiddingManager_init 0 ''N''
            (MinimalDecrease MinimalDecreaseStrategy_default) None (Some (- 1)) None)"

definition negative_cap_calls :: "bid_call list" where
  "negative_cap_calls =
     [\<lparr>call_now = 1, call_rnd = (\<lambda>i. 0), call_id = ''N'', call_price = Finite 100,
       call_seconds = None, call_kwargs = no_kwargs\<rparr>]"







text \<open>The policy of scenarios A and B, and one with 2.5 percent.\<close>

definition scenario_A_policy :: MinimalDecreaseStrategy where
  "scenario_A_policy =
     \<lparr>min_decrease_value = py_float (1 / 100), min_decrease_percent = py_float (1 / 10)\<rparr>"

definition percent_policy :: MinimalDecreaseStrategy where
  "percent_policy =
     \<lparr>min_decrease_value = py_float (1 / 100), min_decrease_percent = py_float (5 / 2)\<rparr>"

text \<open>
  A timed auction with \<open>max_bids = 1\<close> after its one bid, accepted at 60 seconds.
\<close>

definition timed_capped_registered :: BiddingManager where
  "timed_capped_registered =
     snd (register_auction BiddingManager_init 0 ''T'' (Timed scenario_C_strategy)
            (Some (Finite 90)) (Some 1) None)"

definition timed_capped_manager :: BiddingManager where
  "timed_capped_manager =
     snd (snd (process_bid timed_capped_registered 1 (\<lambda>i. 0) ''T'' (Finite 100) (Some 60) no_kwargs))"

text \<open>A timed auction without a cap, just registered.\<close>

definition timed_open_manager :: BiddingManager where
  "timed_open_manager =
     snd (register_auction BiddingManager_init 0 ''U'' (Timed scenario_C_strategy)
            (Some (Finite 90)) None None)"

section \<open>Auxiliary lemmas\<close>

subsection \<open>Rounding to the nearest double\<close>










subsection \<open>The order of floats\<close>





subsection \<open>The computed bid\<close>





subsection \<open>The answers of should_bid\<close>


lemma mds_should_bid_blocked:
  assumes "(mlb \<noteq> None \<and> the mlb \<le> cp) \<or> (mp \<noteq> None \<and> cp \<le> the mp)"
  shows "snd (MinimalDecreaseStrategy_should_bid cp mlb mp) = False"
  using assms by (auto simp: MinimalDecreaseStrategy_should_bid_def)

lemma timed_should_bid_blocked:
  assumes "(mlb \<noteq> None \<and> the mlb \<le> cp) \<or> (mp \<noteq> None \<and> cp \<le> the mp)"
  shows "TimedStrategy_should_bid t rnd secs cp mlb mp =
     (fst (MinimalDecreaseStrategy_should_bid cp mlb mp), Inr (False, t))"
  using mds_should_bid_blocked[OF assms]
  by (auto simp: TimedStrategy_should_bid_def split: prod.splits)

lemma should_bid_blocked:
  assumes "(sp_my_last_bid p \<noteq> None \<and> the (sp_my_last_bid p) \<le> sp_current_price p)
     \<or> (sp_min_price p \<noteq> None \<and> sp_current_price p \<le> the (sp_min_price p))"
  shows "snd (should_bid st rnd p) = Inl NotImplementedError
     \<or> snd (should_bid st rnd p) = Inl TypeError
     \<or> snd (should_bid st rnd p) = Inr (False, st)"
proof (cases st)
  case BiddingStrategy
  then show ?thesis by simp
next
  case (MinimalDecrease s)
  then show ?thesis using mds_should_bid_blocked[OF assms]
    by (auto split: prod.splits)
next
  case (Timed t)
  then show ?thesis using timed_should_bid_blocked[OF assms]
    by (auto split: prod.splits option.splits)
qed

lemma manager_update_same:
  assumes "active_auctions m aid = Some a"
  shows "m\<lparr>active_auctions := (active_auctions m)(aid \<mapsto> a\<lparr>strategy := strategy a\<rparr>)\<rparr> = m"
proof -
  have "(active_auctions m)(aid \<mapsto> a) = active_auctions m"
    using assms by (rule map_upd_triv)
  then show ?thesis by simp
qed

lemma process_bid_blocked:
  assumes reg: "active_auctions m aid = Some a"
    and blocked: "(sp_my_last_bid (assemble_params a cp s kw) \<noteq> None
          \<and> the (sp_my_last_bid (assemble_params a cp s kw)) \<le> cp)
       \<or> (sp_min_price (assemble_params a cp s kw) \<noteq> None
          \<and> cp \<le> the (sp_min_price (assemble_params a cp s kw)))"
  shows "snd (snd (process_bid m now rnd aid cp s kw)) = m
     \<and> fst (snd (process_bid m now rnd aid cp s kw)) \<in> {Inr None, Inl TypeError, Inl NotImplementedError}"
proof -
  let ?p = "assemble_params a cp s kw"
  have cp: "sp_current_price ?p = cp" by (simp add: assemble_params_def)
  have sb: "snd (should_bid (strategy a) rnd ?p) = Inl NotImplementedError
     \<or> snd (should_bid (strategy a) rnd ?p) = Inl TypeError
     \<or> snd (should_bid (strategy a) rnd ?p) = Inr (False, strategy a)"
    using should_bid_blocked[of ?p "strategy a" rnd] blocked cp by simp
  show ?thesis
  proof (cases "max_bids a \<noteq> None \<and> bids_count a \<ge> the (max_bids a)")
    case True
    then show ?thesis using reg by (simp add: process_bid_def)
  next
    case False
    obtain ev1 r1 where r1: "should_bid (strategy a) rnd ?p = (ev1, r1)"
      by (cases "should_bid (strategy a) rnd ?p")
    with sb have "r1 = Inl NotImplementedError \<or> r1 = Inl TypeError \<or> r1 = Inr (False, strategy a)"
      by simp
    then show ?thesis using reg False r1 manager_update_same[OF reg]
      by (auto simp: process_bid_def Let_def)
  qed
qed


subsection \<open>The effect of one call on an auction record\<close>

lemma process_bid_effect:
  assumes "active_auctions m x = Some a"
  shows "\<exists>a'. active_auctions (snd (snd (process_bid m now rnd aid cp s kw))) x = Some a'
     \<and> max_bids a' = max_bids a \<and> min_price a' = min_price a
     \<and> ((bids_count a' = bids_count a \<and> last_bid a' = last_bid a
            \<and> bid_history a' = bid_history a)
         \<or> (x = aid \<and> (max_bids a = None \<or> bids_count a < the (max_bids a))
            \<and> (\<exists>v. fst (snd (process_bid m now rnd aid cp s kw)) = Inr (Some v)
                 \<and> bids_count a' = bids_count a + 1 \<and> last_bid a' = Some v
                 \<and> bid_history a' = bid_history a @
                      [\<lparr>bid_value = v, bid_timestamp = now, bid_current_price = cp\<rparr>])))"
proof (cases "x = aid")
  case False
  then show ?thesis using assms
    by (auto simp: process_bid_def Let_def split: option.splits prod.splits sum.splits)
next
  case True
  then show ?thesis using assms
    by (auto simp: process_bid_def Let_def split: option.splits prod.splits sum.splits)
qed

lemma process_bid_inv:
  assumes "active_auctions m x = Some a" "count_is_history_length a" "last_bid_is_latest a"
  shows "\<exists>a'. active_auctions (snd (snd (process_bid m now rnd aid cp s kw))) x = Some a'
     \<and> max_bids a' = max_bids a
     \<and> count_is_history_length a' \<and> last_bid_is_latest a'
     \<and> (count_within_cap a \<longrightarrow> count_within_cap a')"
proof -
  obtain a' where a': "active_auctions (snd (snd (process_bid m now rnd aid cp s kw))) x = Some a'"
    "max_bids a' = max_bids a"
    "(bids_count a' = bids_count a \<and> last_bid a' = last_bid a
            \<and> bid_history a' = bid_history a)
         \<or> (x = aid \<and> (max_bids a = None \<or> bids_count a < the (max_bids a))
            \<and> (\<exists>v. fst (snd (process_bid m now rnd aid cp s kw)) = Inr (Some v)
                 \<and> bids_count a' = bids_count a + 1 \<and> last_bid a' = Some v
                 \<and> bid_history a' = bid_history a @
                      [\<lparr>bid_value = v, bid_timestamp = now, bid_current_price = cp\<rparr>]))"
    using process_bid_effect[OF assms(1), of now rnd aid cp s kw] by blast
  from a'(3) have "count_is_history_length a'"
    using assms(2) by (auto simp: count_is_history_length_def)
  moreover from a'(3) have "last_bid_is_latest a'"
    using assms(3) by (auto simp: last_bid_is_latest_def)
  moreover from a'(3) a'(2) have "count_within_cap a \<longrightarrow> count_within_cap a'"
    by (auto simp: count_within_cap_def split: option.splits)
  ultimately show ?thesis using a'(1,2) by blast
qed

lemma process_bids_inv:
  assumes "active_auctions m x = Some a" "count_is_history_length a" "last_bid_is_latest a"
  shows "\<exists>a'. active_auctions (snd (process_bids m cs)) x = Some a'
     \<and> max_bids a' = max_bids a
     \<and> count_is_history_length a' \<and> last_bid_is_latest a'
     \<and> (count_within_cap a \<longrightarrow> count_within_cap a')"
  using assms
proof (induction cs arbitrary: m a)
  case Nil
  then show ?case by simp
next
  case (Cons c cs)
  let ?m1 = "snd (snd (process_bid m (call_now c) (call_rnd c) (call_id c) (call_price c)
             (call_seconds c) (call_kwargs c)))"
  obtain a1 where a1: "active_auctions ?m1 x = Some a1" "max_bids a1 = max_bids a"
     "count_is_history_length a1" "last_bid_is_latest a1"
     "count_within_cap a \<longrightarrow> count_within_cap a1"
    using process_bid_inv[OF Cons.prems] by blast
  obtain a2 where a2: "active_auctions (snd (process_bids ?m1 cs)) x = Some a2"
     "max_bids a2 = max_bids a1"
     "count_is_history_length a2" "last_bid_is_latest a2"
     "count_within_cap a1 \<longrightarrow> count_within_cap a2"
    using Cons.IH[OF a1(1,3,4)] by blast
  have "snd (process_bids m (c # cs)) = snd (process_bids ?m1 cs)"
    by (simp split: prod.splits)
  then show ?case using a1 a2 by auto
qed

subsection \<open>The threshold scan\<close>

lemma scan_Inl:
  "scan_bid_times rd mrd rnd secs lst i bts = Inl e \<Longrightarrow> rd \<and> mrd < 0"
  by (induction bts arbitrary: i) (auto simp: Let_def split: if_splits)

lemma scan_None:
  "scan_bid_times rd mrd rnd secs lst i bts = Inr None \<Longrightarrow> j < length bts \<Longrightarrow>
     \<not> (lst < int (i + j) \<and> secs \<le> (if rd then bts ! j + rnd (i + j) else bts ! j))"
proof (induction bts arbitrary: i j)
  case Nil
  then show ?case by simp
next
  case (Cons bt bts)
  from Cons.prems(1) have here:
    "\<not> (lst < int i \<and> secs \<le> (if rd then bt + rnd i else bt))"
    and rest: "scan_bid_times rd mrd rnd secs lst (Suc i) bts = Inr None"
    by (auto simp: Let_def split: if_splits)
  show ?case
  proof (cases j)
    case 0
    then show ?thesis using here by (cases rd) simp_all
  next
    case (Suc j')
    then have "j' < length bts" using Cons.prems(2) by simp
    from Cons.IH[OF rest this] show ?thesis using Suc by (cases rd; simp)
  qed
qed

lemma scan_Some:
  "scan_bid_times rd mrd rnd secs lst i bts = Inr (Some k) \<Longrightarrow>
     (\<exists>j. k = i + j \<and> j < length bts \<and> lst < int k
        \<and> secs \<le> (if rd then bts ! j + rnd k else bts ! j)
        \<and> (\<forall>j' < j. \<not> (lst < int (i + j')
              \<and> secs \<le> (if rd then bts ! j' + rnd (i + j') else bts ! j'))))"
proof (induction bts arbitrary: i)
  case Nil
  then show ?case by simp
next
  case (Cons bt bts)
  show ?case
  proof (cases "lst < int i \<and> secs \<le> (if rd then bt + rnd i else bt)")
    case True
    then have "k = i" using Cons.prems by (auto simp: Let_def split: if_splits)
    then show ?thesis using True by (intro exI[of _ 0]) (cases rd; simp)
  next
    case False
    then have rest: "scan_bid_times rd mrd rnd secs lst (Suc i) bts = Inr (Some k)"
      using Cons.prems by (auto simp: Let_def split: if_splits)
    from Cons.IH[OF rest] obtain j where j: "k = Suc i + j" "j < length bts" "lst < int k"
      "secs \<le> (if rd then bts ! j + rnd k else bts ! j)"
      "\<forall>j' < j. \<not> (lst < int (Suc i + j')
              \<and> secs \<le> (if rd then bts ! j' + rnd (Suc i + j') else bts ! j'))"
      by blast
    have "\<forall>j' < Suc j. \<not> (lst < int (i + j')
              \<and> secs \<le> (if rd then (bt # bts) ! j' + rnd (i + j') else (bt # bts) ! j'))"
    proof (intro allI impI)
      fix j' assume lt: "j' < Suc j"
      show "\<not> (lst < int (i + j')
              \<and> secs \<le> (if rd then (bt # bts) ! j' + rnd (i + j') else (bt # bts) ! j'))"
      proof (cases j')
        case 0
        then show ?thesis using False by (cases rd; simp)
      next
        case (Suc n)
        then have "n < j" using lt by simp
        with j(5) show ?thesis using Suc by (cases rd; auto)
      qed
    qed
    then show ?thesis using j(1-4) by (intro exI[of _ "Suc j"]) (cases rd; simp)
  qed
qed

lemma timed_should_bid_fires:
  assumes eligible: "snd (MinimalDecreaseStrategy_should_bid cp mlb mp)"
    and jitter: "random_delay t \<longrightarrow> 0 \<le> max_random_delay t"
  shows "(\<exists>i. fires_at t rnd secs i \<and> (\<forall>j < i. \<not> fires_at t rnd secs j)
            \<and> TimedStrategy_should_bid t rnd secs cp mlb mp =
                ([(INFO, Dando_lance_programado secs)],
                 Inr (True, t\<lparr>last_bid_time_index := int i\<rparr>)))
       \<or> ((\<forall>i. \<not> fires_at t rnd secs i)
            \<and> TimedStrategy_should_bid t rnd secs cp mlb mp = ([], Inr (False, t)))"
proof -
  have ev: "MinimalDecreaseStrategy_should_bid cp mlb mp = ([], True)"
    using eligible by (auto simp: MinimalDecreaseStrategy_should_bid_def split: if_splits)
  let ?scan = "scan_bid_times (random_delay t) (max_random_delay t) rnd secs
                 (last_bid_time_index t) 0 (bid_times t)"
  show ?thesis
  proof (cases ?scan)
    case (Inl e)
    from scan_Inl[OF this] jitter show ?thesis by simp
  next
    case (Inr r)
    show ?thesis
    proof (cases r)
      case None
      then have "\<forall>i. \<not> fires_at t rnd secs i"
        using scan_None[of "random_delay t" "max_random_delay t" rnd secs
            "last_bid_time_index t" 0 "bid_times t"] Inr
        by (auto simp: fires_at_def effective_threshold_def)
      moreover have "TimedStrategy_should_bid t rnd secs cp mlb mp = ([], Inr (False, t))"
        using ev Inr None by (simp add: TimedStrategy_should_bid_def)
      ultimately show ?thesis by blast
    next
      case (Some k)
      from scan_Some[of "random_delay t" "max_random_delay t" rnd secs
            "last_bid_time_index t" 0 "bid_times t" k] Inr Some
      have "fires_at t rnd secs k \<and> (\<forall>j < k. \<not> fires_at t rnd secs j)"
        by (auto simp: fires_at_def effective_threshold_def)
      moreover have "TimedStrategy_should_bid t rnd secs cp mlb mp =
                ([(INFO, Dando_lance_programado secs)],
                 Inr (True, t\<lparr>last_bid_time_index := int k\<rparr>))"
        using ev Inr Some by (simp add: TimedStrategy_should_bid_def)
      ultimately show ?thesis by blast
    qed
  qed
qed

lemma timed_should_bid_cursor:
  assumes "TimedStrategy_should_bid t rnd secs cp mlb mp = (ev, Inr (ok, t'))"
  shows "(if ok then last_bid_time_index t < last_bid_time_index t'
                  \<and> last_bid_time_index t' < int (length (bid_times t))
          else t' = t)
       \<and> bid_times t' = bid_times t"
proof (cases "snd (MinimalDecreaseStrategy_should_bid cp mlb mp)")
  case False
  then show ?thesis using assms
    by (auto simp: TimedStrategy_should_bid_def split: prod.splits)
next
  case True
  let ?scan = "scan_bid_times (random_delay t) (max_random_delay t) rnd secs
                 (last_bid_time_index t) 0 (bid_times t)"
  show ?thesis
  proof (cases ?scan)
    case (Inl e)
    then show ?thesis using assms True
      by (auto simp: TimedStrategy_should_bid_def split: prod.splits)
  next
    case (Inr r)
    show ?thesis
    proof (cases r)
      case None
      then show ?thesis using assms True Inr
        by (auto simp: TimedStrategy_should_bid_def split: prod.splits)
    next
      case (Some k)
      from scan_Some[of "random_delay t" "max_random_delay t" rnd secs
            "last_bid_time_index t" 0 "bid_times t" k] Inr Some
      have "last_bid_time_index t < int k" "k < length (bid_times t)" by auto
      then show ?thesis using assms True Inr Some
        by (auto simp: TimedStrategy_should_bid_def split: prod.splits)
    qed
  qed
qed

lemma timed_should_bid_True:
  assumes "TimedStrategy_should_bid t rnd secs cp mlb mp = (ev, Inr (True, t'))"
  shows "\<exists>i. fires_at t rnd secs i \<and> (\<forall>j < i. \<not> fires_at t rnd secs j)
           \<and> t' = t\<lparr>last_bid_time_index := int i\<rparr>"
proof -
  let ?scan = "scan_bid_times (random_delay t) (max_random_delay t) rnd secs
                 (last_bid_time_index t) 0 (bid_times t)"
  from assms obtain k where k: "?scan = Inr (Some k)"
    and t': "t' = t\<lparr>last_bid_time_index := int k\<rparr>"
    by (auto simp: TimedStrategy_should_bid_def
          split: prod.splits if_splits sum.splits option.splits)
  from scan_Some[OF k]
  have "fires_at t rnd secs k \<and> (\<forall>j < k. \<not> fires_at t rnd secs j)"
    by (auto simp: fires_at_def effective_threshold_def)
  with t' show ?thesis by blast
qed

lemma fired_indices_increasing:
  "sorted_wrt (<) (fst (fired_indices t cs))
   \<and> (\<forall>i \<in> set (fst (fired_indices t cs)). last_bid_time_index t < i
         \<and> i \<le> last_bid_time_index (snd (fired_indices t cs)))
   \<and> last_bid_time_index t \<le> last_bid_time_index (snd (fired_indices t cs))"
proof (induction cs arbitrary: t)
  case Nil
  then show ?case by simp
next
  case (Cons c cs)
  obtain ev r where r: "TimedStrategy_should_bid t (tc_rnd c) (tc_seconds c) (tc_price c)
             (tc_my_last_bid c) (tc_min_price c) = (ev, r)"
    by (cases "TimedStrategy_should_bid t (tc_rnd c) (tc_seconds c) (tc_price c)
             (tc_my_last_bid c) (tc_min_price c)")
  show ?case
  proof (cases r)
    case (Inl e)
    then show ?thesis using r Cons.IH[of t] by simp
  next
    case (Inr p)
    obtain ok t' where p: "p = (ok, t')" by (cases p)
    note cur = timed_should_bid_cursor[OF r[unfolded Inr p]]
    obtain fired t'' where f: "fired_indices t' cs = (fired, t'')"
      by (cases "fired_indices t' cs")
    have eq: "fired_indices t (c # cs) = ((if ok then [last_bid_time_index t'] else []) @ fired, t'')"
      using r Inr p f by simp
    from Cons.IH[of t'] f have ih: "sorted_wrt (<) fired"
      "\<forall>i \<in> set fired. last_bid_time_index t' < i \<and> i \<le> last_bid_time_index t''"
      "last_bid_time_index t' \<le> last_bid_time_index t''"
      by auto
    show ?thesis
    proof (cases ok)
      case True
      then have "last_bid_time_index t < last_bid_time_index t'" using cur by simp
      then show ?thesis using eq ih True by fastforce
    next
      case False
      then have "t' = t" using cur by simp
      then show ?thesis using eq ih False by simp
    qed
  qed
qed

subsection \<open>Evaluation of the scenarios\<close>

lemma triple_case_proj:
  "(case x of (ev, r, m) \<Rightarrow> f r m) = f (fst (snd x)) (snd (snd x))"
  by (cases x) auto

lemma pair_case_proj:
  "(case x of (rs, m) \<Rightarrow> f rs m) = f (fst x) (snd x)"
  by (cases x) auto

lemma scenario_D_first_call:
  "(case process_bid scenario_D_registered 1 (\<lambda>i. 0) ''D'' (Finite 100) None no_kwargs of
      (ev, r, m) \<Rightarrow> (r, active_auctions m ''D'')) =
   (let v = py_float (9999 / 100)
    in (Inr (Some v),
        Some \<lparr>strategy = MinimalDecrease MinimalDecreaseStrategy_default,
              min_price = Some (Finite 90), max_bids = Some 1, bids_count = 1,
              last_bid = Some v, item_description = None, start_time = 0,
              bid_history = [\<lparr>bid_value = v, bid_timestamp = 1,
                              bid_current_price = Finite 100\<rparr>]\<rparr>))"
  by code_simp

lemma scenario_D_result:
  "fst (snd (process_bid scenario_D_registered 1 (\<lambda>i. 0) ''D'' (Finite 100) None no_kwargs))
     = Inr (Some (py_float (9999 / 100)))"
  using scenario_D_first_call by (simp add: triple_case_proj Let_def)

lemma scenario_D_record:
  "active_auctions scenario_D_after_bid ''D'' =
     Some \<lparr>strategy = MinimalDecrease MinimalDecreaseStrategy_default,
           min_price = Some (Finite 90), max_bids = Some 1, bids_count = 1,
           last_bid = Some (py_float (9999 / 100)), item_description = None, start_time = 0,
           bid_history = [\<lparr>bid_value = py_float (9999 / 100), bid_timestamp = 1,
                           bid_current_price = Finite 100\<rparr>]\<rparr>"
  using scenario_D_first_call
  by (simp add: triple_case_proj Let_def scenario_D_after_bid_def)


lemma scenario_D_run:
  "(case process_bids scenario_D_registered scenario_D_calls of
      (rs, m) \<Rightarrow> (rs, active_auctions m ''D'')) =
   (let v = py_float (9999 / 100)
    in ([Inr (Some v), Inr None],
        Some \<lparr>strategy = MinimalDecrease MinimalDecreaseStrategy_default,
              min_price = Some (Finite 90), max_bids = Some 1, bids_count = 1,
              last_bid = Some v, item_description = None, start_time = 0,
              bid_history = [\<lparr>bid_value = v, bid_timestamp = 1,
                              bid_current_price = Finite 100\<rparr>]\<rparr>))"
  by code_simp

lemma scenario_C_run:
  "(case process_bids scenario_C_manager scenario_C_calls of
      (rs, m) \<Rightarrow> (rs, active_auctions m ''C'')) =
   (let v = py_float (9999 / 100)
    in ([Inr None, Inr (Some v), Inr None, Inr None, Inr None, Inr None, Inr None,
         Inr None, Inr None],
        Some \<lparr>strategy = Timed \<lparr>bid_times = [60, 30, 10, 3], random_delay = False,
                                 max_random_delay = 5, last_bid_time_index = 0\<rparr>,
              min_price = Some (Finite 90), max_bids = None, bids_count = 1,
              last_bid = Some v, item_description = None, start_time = 0,
              bid_history = [\<lparr>bid_value = v, bid_timestamp = 1,
                              bid_current_price = Finite 100\<rparr>]\<rparr>))"
  by code_simp

lemma scenario_C_after_bid_record:
  "active_auctions scenario_C_after_bid ''C'' =
     (let v = py_float (9999 / 100)
      in Some \<lparr>strategy = Timed \<lparr>bid_times = [60, 30, 10, 3], random_delay = False,
                                   max_random_delay = 5, last_bid_time_index = 0\<rparr>,
                min_price = Some (Finite 90), max_bids = None, bids_count = 1,
                last_bid = Some v, item_description = None, start_time = 0,
                bid_history = [\<lparr>bid_value = v, bid_timestamp = 1,
                                bid_current_price = Finite 100\<rparr>]\<rparr>)"
  by code_simp

lemma scenario_C_policy_run:
  "scan_trace scenario_C_strategy scenario_C_policy_calls =
     [(120, Inr False, - 1), (60, Inr True, 0), (40, Inr False, 0), (30, Inr True, 1),
      (15, Inr False, 1), (10, Inr True, 2), (5, Inr False, 2), (3, Inr True, 3),
      (1, Inr False, 3)]
   \<and> fst (fired_indices scenario_C_strategy scenario_C_policy_calls) = [0, 1, 2, 3]
   \<and> last_bid_time_index (snd (fired_indices scenario_C_strategy scenario_C_policy_calls)) = 3"
  by code_simp




lemma timed_capped_record:
  "active_auctions timed_capped_manager ''T'' =
     (let v = py_float (9999 / 100)
      in Some \<lparr>strategy = Timed \<lparr>bid_times = [60, 30, 10, 3], random_delay = False,
                                   max_random_delay = 5, last_bid_time_index = 0\<rparr>,
                min_price = Some (Finite 90), max_bids = Some 1, bids_count = 1,
                last_bid = Some v, item_description = None, start_time = 0,
                bid_history = [\<lparr>bid_value = v, bid_timestamp = 1,
                                bid_current_price = Finite 100\<rparr>]\<rparr>)"
  by code_simp

lemma literal_below_100: "py_float (9999 / 100) \<le> Finite 100"
  by code_simp

lemma literals_differ:
  "py_float (21508 / 100) \<noteq> py_float (21509 / 100)
   \<and> py_float (3497 / 100) \<noteq> py_float (3496 / 100)
   \<and> py_float (4495 / 100) \<noteq> py_float (4496 / 100)"
  by code_simp

lemma scenario_A_value:
  "MinimalDecreaseStrategy_calculate_bid scenario_A_policy (Finite 100) =
     (let v = py_float (999 / 10) in ([(INFO, Calculado_lance v (Finite 100))], v))"
  by code_simp

lemma scenario_B_value:
  "MinimalDecreaseStrategy_calculate_bid scenario_A_policy (Finite 10) =
     (let v = py_float (999 / 100) in ([(INFO, Calculado_lance v (Finite 10))], v))"
  by code_simp

lemma tie_value:
  "snd (MinimalDecreaseStrategy_calculate_bid scenario_A_policy (Finite 35)) =
     py_float (3497 / 100)"
  by code_simp

lemma tie_down_value:
  "snd (MinimalDecreaseStrategy_calculate_bid scenario_A_policy (Finite 45)) =
     py_float (4495 / 100)"
  by code_simp

lemma percent_value:
  "snd (MinimalDecreaseStrategy_calculate_bid percent_policy (py_float (2206 / 10))) =
     py_float (21508 / 100)"
  by code_simp

lemma left_to_right_value:
  "left_to_right_bid percent_policy (py_float (2206 / 10)) = py_float (21509 / 100)"
  by code_simp

lemma decimal_value:
  "decimal_bid (1 / 100) (1 / 10) 35 = 3496 / 100
   \<and> decimal_bid (1 / 100) (1 / 10) 45 = 4496 / 100"
  by code_simp

section \<open>The claims\<close>

subsection \<open>C1: registering an identifier that is already present\<close>

text \<open>
  C1, as amended. \<open>register_auction\<close> has no failure: called with an identifier that
  is already in the registry it emits the informational event and replaces the record
  by a fresh one (the new strategy, floor, cap and description, \<open>bids_count = 0\<close>,
  \<open>last_bid = None\<close>, empty \<open>bid_history\<close>); every other identifier keeps its record.
\<close>

theorem register_auction_replaces_existing:
  assumes "active_auctions m aid = Some a"
  shows "fst (register_auction m now aid st mp mb d) = [(INFO, Licitacao_registrada aid d)]
     \<and> active_auctions (snd (register_auction m now aid st mp mb d)) aid =
         Some \<lparr>strategy = st, min_price = mp, max_bids = mb, bids_count = 0,
               last_bid = None, item_description = d, start_time = now,
               bid_history = []\<rparr>
     \<and> (\<forall>x. x \<noteq> aid \<longrightarrow>
           active_auctions (snd (register_auction m now aid st mp mb d)) x =
           active_auctions m x)"
  by (simp add: register_auction_def)

text \<open>
  The claim as stated fails: the auction \<open>D\<close> holds one bid (99.99), and a second
  registration under \<open>D\<close> returns normally and leaves a record with no bid.
\<close>

theorem register_auction_duplicate_counterexample:
  "map_option bids_count (active_auctions scenario_D_after_bid ''D'') = Some 1
   \<and> map_option last_bid (active_auctions scenario_D_after_bid ''D'')
       = Some (Some (py_float (9999 / 100)))
   \<and> map_option (\<lambda>a. length (bid_history a)) (active_auctions scenario_D_after_bid ''D'') = Some 1
   \<and> map_option bids_count (active_auctions duplicate_registered ''D'') = Some 0
   \<and> map_option last_bid (active_auctions duplicate_registered ''D'') = Some None
   \<and> map_option bid_history (active_auctions duplicate_registered ''D'') = Some []"
  using scenario_D_record by (simp add: duplicate_registered_def register_auction_def)

theorem register_auction_replaces_existing_witness:
  "active_auctions scenario_D_after_bid ''D'' =
     Some \<lparr>strategy = MinimalDecrease MinimalDecreaseStrategy_default,
           min_price = Some (Finite 90), max_bids = Some 1, bids_count = 1,
           last_bid = Some (py_float (9999 / 100)), item_description = None, start_time = 0,
           bid_history = [\<lparr>bid_value = py_float (9999 / 100), bid_timestamp = 1,
                           bid_current_price = Finite 100\<rparr>]\<rparr>
   \<and> active_auctions duplicate_registered ''D'' =
       Some \<lparr>strategy = MinimalDecrease MinimalDecreaseStrategy_default,
             min_price = Some (Finite 80), max_bids = None, bids_count = 0, last_bid = None,
             item_description = None, start_time = 2, bid_history = []\<rparr>"
  using scenario_D_record
    register_auction_replaces_existing[OF scenario_D_record, of 2
      "MinimalDecrease MinimalDecreaseStrategy_default" "Some (Finite 80)" None None]
  by (simp add: duplicate_registered_def)

subsection \<open>C2: scenario C through the manager\<close>

text \<open>
  C2, as amended. In scenario C (\<open>bid_times = [60, 30, 10, 3]\<close>, no jitter, floor 90.0,
  price constant at 100.0, \<open>seconds_remaining\<close> = 120, 60, 40, 30, 15, 10, 5, 3, 1)
  \<open>process_bid\<close> accepts exactly one bid, 99.99, at the call with 60 seconds; every
  later call returns "no bid", because \<open>last_bid = 99.99 \<le> 100.0\<close> makes \<open>should_bid\<close>
  answer \<open>False\<close> before the thresholds are scanned. The auction ends with
  \<open>bids_count = 1\<close> and the cursor at index 0, so no threshold index fired twice. The
  threshold scan alone, \<open>should_bid\<close> called with no last bid, answers \<open>True\<close> at
  exactly the four calls with 60, 30, 10 and 3 seconds and \<open>False\<close> at the other five,
  moving the cursor to the indices 0, 1, 2, 3 in turn.
\<close>

theorem scenario_C_one_bid:
  "fst (process_bids scenario_C_manager scenario_C_calls) =
     [Inr None, Inr (Some (py_float (9999 / 100))), Inr None, Inr None, Inr None, Inr None,
      Inr None, Inr None, Inr None]
   \<and> accepted_seconds scenario_C_calls (fst (process_bids scenario_C_manager scenario_C_calls))
       = [Some 60]
   \<and> map_option bids_count
        (active_auctions (snd (process_bids scenario_C_manager scenario_C_calls)) ''C'') = Some 1
   \<and> map_option strategy
        (active_auctions (snd (process_bids scenario_C_manager scenario_C_calls)) ''C'') =
       Some (Timed \<lparr>bid_times = [60, 30, 10, 3], random_delay = False,
                    max_random_delay = 5, last_bid_time_index = 0\<rparr>)
   \<and> scan_trace scenario_C_strategy scenario_C_policy_calls =
       [(120, Inr False, - 1), (60, Inr True, 0), (40, Inr False, 0), (30, Inr True, 1),
        (15, Inr False, 1), (10, Inr True, 2), (5, Inr False, 2), (3, Inr True, 3),
        (1, Inr False, 3)]
   \<and> fst (fired_indices scenario_C_strategy scenario_C_policy_calls) = [0, 1, 2, 3]"
proof -
  have results: "fst (process_bids scenario_C_manager scenario_C_calls) =
     [Inr None, Inr (Some (py_float (9999 / 100))), Inr None, Inr None, Inr None, Inr None,
      Inr None, Inr None, Inr None]"
    using scenario_C_run by (simp add: pair_case_proj Let_def)
  have accepted: "accepted_seconds scenario_C_calls
      (fst (process_bids scenario_C_manager scenario_C_calls)) = [Some 60]"
    unfolding results by (simp add: accepted_seconds_def scenario_C_calls_def)
  have final: "map_option bids_count
        (active_auctions (snd (process_bids scenario_C_manager scenario_C_calls)) ''C'') = Some 1
   \<and> map_option strategy
        (active_auctions (snd (process_bids scenario_C_manager scenario_C_calls)) ''C'') =
       Some (Timed \<lparr>bid_times = [60, 30, 10, 3], random_delay = False,
                    max_random_delay = 5, last_bid_time_index = 0\<rparr>)"
    using scenario_C_run by (simp add: pair_case_proj Let_def)
  from results accepted final scenario_C_policy_run show ?thesis by blast
qed

text \<open>The claim as stated fails: the accepted calls are not those with 60, 30, 10 and 3 seconds.\<close>

theorem scenario_C_four_bids_counterexample:
  "accepted_seconds scenario_C_calls (fst (process_bids scenario_C_manager scenario_C_calls))
     \<noteq> [Some 60, Some 30, Some 10, Some 3]"
proof -
  have results: "fst (process_bids scenario_C_manager scenario_C_calls) =
     [Inr None, Inr (Some (py_float (9999 / 100))), Inr None, Inr None, Inr None, Inr None,
      Inr None, Inr None, Inr None]"
    using scenario_C_run by (simp add: pair_case_proj Let_def)
  show ?thesis unfolding results by (simp add: accepted_seconds_def scenario_C_calls_def)
qed

subsection \<open>C3: the value computed by MinimalDecreaseStrategy\<close>

text \<open>
  C3, as amended. For every \<open>current_price\<close>, \<open>MinimalDecreaseStrategy.calculate_bid\<close>
  returns \<open>round(current_price - d, 2)\<close> computed in double arithmetic, where
  \<open>d = current_price * (min_decrease_percent / 100)\<close>, the percentage divided by 100
  first, if \<open>min_decrease_percent > 0\<close> and that product is strictly greater than
  \<open>min_decrease_value\<close>, and \<open>d = min_decrease_value\<close> otherwise; it emits one
  informational event carrying the value. With \<open>min_decrease_value = 0.01\<close> and
  \<open>min_decrease_percent = 0.1\<close> it returns 99.9 for 100.0 and 9.99 for 10.0; at 35.0,
  where the decimal value 34.965 lies halfway between two cents, it returns 34.97.
\<close>

theorem calculate_bid_minimal_decrease:
  "MinimalDecreaseStrategy_calculate_bid self current_price =
     ([(INFO, Calculado_lance
          (py_round2 (float_sub current_price (spec_decrement self current_price)))
          current_price)],
      py_round2 (float_sub current_price (spec_decrement self current_price)))
   \<and> snd (MinimalDecreaseStrategy_calculate_bid scenario_A_policy (Finite 100))
       = py_float (999 / 10)
   \<and> snd (MinimalDecreaseStrategy_calculate_bid scenario_A_policy (Finite 10))
       = py_float (999 / 100)
   \<and> snd (MinimalDecreaseStrategy_calculate_bid scenario_A_policy (Finite 35))
       = py_float (3497 / 100)"
proof -
  have general: "MinimalDecreaseStrategy_calculate_bid self current_price =
     ([(INFO, Calculado_lance
          (py_round2 (float_sub current_price (spec_decrement self current_price)))
          current_price)],
      py_round2 (float_sub current_price (spec_decrement self current_price)))"
    by (simp add: MinimalDecreaseStrategy_calculate_bid_def spec_decrement_def Let_def)
  have scenario_A: "snd (MinimalDecreaseStrategy_calculate_bid scenario_A_policy (Finite 100))
       = py_float (999 / 10)"
    using scenario_A_value by (simp add: Let_def)
  have scenario_B: "snd (MinimalDecreaseStrategy_calculate_bid scenario_A_policy (Finite 10))
       = py_float (999 / 100)"
    using scenario_B_value by (simp add: Let_def)
  from general scenario_A scenario_B tie_value show ?thesis by blast
qed

text \<open>
  The claim as stated fails under both readings of its formula. Evaluated in double
  arithmetic from left to right (\<open>current_price * min_decrease_percent / 100\<close>), it
  gives 215.09 for the price 220.6 with 2.5 percent, where the code returns 215.08.
  Evaluated in exact arithmetic on the decimal values, with 0.1 percent, it gives 34.96
  for the price 35.0 (the value 34.965 is a tie, rounded to the even cent), where the
  code returns 34.97, and 44.96 for the price 45.0 (the value 44.955 is a tie, rounded
  to the even cent, which is also the upper one), where the code returns 44.95.
\<close>

theorem calculate_bid_formula_counterexample:
  "snd (MinimalDecreaseStrategy_calculate_bid percent_policy (py_float (2206 / 10)))
     = py_float (21508 / 100)
   \<and> left_to_right_bid percent_policy (py_float (2206 / 10)) = py_float (21509 / 100)
   \<and> py_float (21508 / 100) \<noteq> py_float (21509 / 100)
   \<and> snd (MinimalDecreaseStrategy_calculate_bid scenario_A_policy (Finite 35))
       = py_float (3497 / 100)
   \<and> decimal_bid (1 / 100) (1 / 10) 35 = 3496 / 100
   \<and> py_float (3497 / 100) \<noteq> py_float (3496 / 100)
   \<and> snd (MinimalDecreaseStrategy_calculate_bid scenario_A_policy (Finite 45))
       = py_float (4495 / 100)
   \<and> decimal_bid (1 / 100) (1 / 10) 45 = 4496 / 100
   \<and> py_float (4495 / 100) \<noteq> py_float (4496 / 100)"
  using percent_value left_to_right_value literals_differ tie_value tie_down_value
    decimal_value
  by blast

subsection \<open>C4: counter, history and last bid\<close>

text \<open>
  C4, as amended. For an auction just registered, after every finite sequence of
  \<open>process_bid\<close> calls (on any identifiers, with any arguments): the auction is still
  registered, \<open>bids_count\<close> equals the length of \<open>bid_history\<close>, \<open>last_bid\<close> equals the
  value of the most recent entry of \<open>bid_history\<close> (\<open>None\<close> when it is empty), and
  \<open>bids_count \<le> max_bids\<close> whenever \<open>max_bids\<close> is set and was not negative at
  registration.
\<close>

theorem registered_auction_invariants:
  "\<exists>a. active_auctions
          (snd (process_bids (snd (register_auction m now aid st mp mb d)) cs)) aid = Some a
     \<and> max_bids a = mb
     \<and> count_is_history_length a
     \<and> last_bid_is_latest a
     \<and> ((\<forall>k. mb = Some k \<longrightarrow> 0 \<le> k) \<longrightarrow> count_within_cap a)"
proof -
  let ?a0 = "\<lparr>strategy = st, min_price = mp, max_bids = mb, bids_count = 0,
              last_bid = None, item_description = d, start_time = now,
              bid_history = []\<rparr>"
  let ?m0 = "snd (register_auction m now aid st mp mb d)"
  have reg: "active_auctions ?m0 aid = Some ?a0"
    by (simp add: register_auction_def)
  have len: "count_is_history_length ?a0"
    by (simp add: count_is_history_length_def)
  have lst: "last_bid_is_latest ?a0"
    by (simp add: last_bid_is_latest_def)
  have cap: "(\<forall>k. mb = Some k \<longrightarrow> 0 \<le> k) \<longrightarrow> count_within_cap ?a0"
    by (auto simp: count_within_cap_def split: option.splits)
  from process_bids_inv[OF reg len lst, of cs]
  obtain a where a: "active_auctions (snd (process_bids ?m0 cs)) aid = Some a"
    "max_bids a = max_bids ?a0" "count_is_history_length a" "last_bid_is_latest a"
    "count_within_cap ?a0 \<longrightarrow> count_within_cap a"
    by blast
  from a(2) have "max_bids a = mb" by simp
  with a cap show ?thesis by blast
qed

text \<open>
  The claim as stated fails for a negative cap: the auction \<open>N\<close> is registered with
  \<open>max_bids = -1\<close>, and after one call \<open>bids_count = 0\<close> is above the cap.
\<close>

theorem negative_cap_counterexample:
  "map_option max_bids
     (active_auctions (snd (process_bids negative_cap_manager negative_cap_calls)) ''N'')
     = Some (Some (- 1))
   \<and> map_option bids_count
       (active_auctions (snd (process_bids negative_cap_manager negative_cap_calls)) ''N'')
       = Some 0
   \<and> map_option count_within_cap
       (active_auctions (snd (process_bids negative_cap_manager negative_cap_calls)) ''N'')
       = Some False"
  by code_simp

theorem registered_auction_invariants_witness:
  "(\<exists>a. active_auctions (snd (process_bids scenario_D_registered scenario_D_calls)) ''D'' = Some a
      \<and> max_bids a = Some 1
      \<and> count_is_history_length a \<and> last_bid_is_latest a \<and> count_within_cap a)
   \<and> fst (process_bids scenario_D_registered scenario_D_calls) =
       [Inr (Some (py_float (9999 / 100))), Inr None]
   \<and> map_option bids_count
        (active_auctions (snd (process_bids scenario_D_registered scenario_D_calls)) ''D'') = Some 1
   \<and> map_option (\<lambda>a. length (bid_history a))
        (active_auctions (snd (process_bids scenario_D_registered scenario_D_calls)) ''D'') = Some 1"
proof -
  have "\<exists>a. active_auctions (snd (process_bids scenario_D_registered scenario_D_calls)) ''D'' = Some a
      \<and> max_bids a = Some 1
      \<and> count_is_history_length a \<and> last_bid_is_latest a \<and> count_within_cap a"
    using registered_auction_invariants[of BiddingManager_init 0 "''D''"
        "MinimalDecrease MinimalDecreaseStrategy_default" "Some (Finite 90)" "Some 1" None
        scenario_D_calls]
    by (simp add: scenario_D_registered_def)
  moreover have "fst (process_bids scenario_D_registered scenario_D_calls) =
       [Inr (Some (py_float (9999 / 100))), Inr None]
   \<and> map_option bids_count
        (active_auctions (snd (process_bids scenario_D_registered scenario_D_calls)) ''D'') = Some 1
   \<and> map_option (\<lambda>a. length (bid_history a))
        (active_auctions (snd (process_bids scenario_D_registered scenario_D_calls)) ''D'') = Some 1"
    using scenario_D_run by (simp add: pair_case_proj Let_def)
  ultimately show ?thesis by blast
qed

subsection \<open>C5: the two baseline rules\<close>

text \<open>
  C5. Whenever \<open>my_last_bid\<close> is set and \<open>my_last_bid \<le> current_price\<close>, or
  \<open>floor_price\<close> is set and \<open>current_price \<le> floor_price\<close>, \<open>should_bid\<close> of both
  concrete strategies answers \<open>False\<close> (the timed one without moving its cursor).
  Consequently a \<open>process_bid\<close> call to which these values are forwarded produces no
  bid and leaves the manager, the auction record and its strategy unchanged: it
  returns "no bid", except that a strategy whose \<open>should_bid\<close> cannot be called
  raises (a \<open>TimedStrategy\<close> without \<open>seconds_remaining\<close>, the abstract base class).
\<close>

theorem baseline_rules_block_bid:
  assumes blocked: "(\<exists>b. my_last_bid = Some b \<and> b \<le> cp) \<or> (\<exists>f. floor_price = Some f \<and> cp \<le> f)"
  shows "snd (MinimalDecreaseStrategy_should_bid cp my_last_bid floor_price) = False
     \<and> snd (TimedStrategy_should_bid t rnd secs cp my_last_bid floor_price) = Inr (False, t)
     \<and> (active_auctions m aid = Some a
          \<and> sp_my_last_bid (assemble_params a cp s kw) = my_last_bid
          \<and> sp_min_price (assemble_params a cp s kw) = floor_price
        \<longrightarrow> snd (snd (process_bid m now rnd aid cp s kw)) = m
            \<and> fst (snd (process_bid m now rnd aid cp s kw)) =
                (if max_bids a \<noteq> None \<and> bids_count a \<ge> the (max_bids a) then Inr None
                 else case strategy a of
                        BiddingStrategy \<Rightarrow> Inl NotImplementedError
                      | MinimalDecrease c \<Rightarrow> Inr None
                      | Timed c \<Rightarrow> if s = None then Inl TypeError else Inr None))"
proof -
  from blocked have b: "(my_last_bid \<noteq> None \<and> the my_last_bid \<le> cp)
       \<or> (floor_price \<noteq> None \<and> cp \<le> the floor_price)"
    by auto
  have mds: "snd (MinimalDecreaseStrategy_should_bid cp my_last_bid floor_price) = False"
    using mds_should_bid_blocked[OF b] .
  have timed: "\<And>t rnd secs.
      snd (TimedStrategy_should_bid t rnd secs cp my_last_bid floor_price) = Inr (False, t)"
    using timed_should_bid_blocked[OF b] by simp
  have "snd (snd (process_bid m now rnd aid cp s kw)) = m
        \<and> fst (snd (process_bid m now rnd aid cp s kw)) =
                (if max_bids a \<noteq> None \<and> bids_count a \<ge> the (max_bids a) then Inr None
                 else case strategy a of
                        BiddingStrategy \<Rightarrow> Inl NotImplementedError
                      | MinimalDecrease c \<Rightarrow> Inr None
                      | Timed c \<Rightarrow> if s = None then Inl TypeError else Inr None)"
    if reg: "active_auctions m aid = Some a"
      and mlb: "sp_my_last_bid (assemble_params a cp s kw) = my_last_bid"
      and flo: "sp_min_price (assemble_params a cp s kw) = floor_price"
  proof -
    let ?p = "assemble_params a cp s kw"
    have cp: "sp_current_price ?p = cp" and secs: "sp_seconds_remaining ?p = s"
      by (simp_all add: assemble_params_def)
    have unchanged: "snd (snd (process_bid m now rnd aid cp s kw)) = m"
      using process_bid_blocked[OF reg, of cp s kw now rnd] b mlb flo by simp
    have result: "fst (snd (process_bid m now rnd aid cp s kw)) =
                (if max_bids a \<noteq> None \<and> bids_count a \<ge> the (max_bids a) then Inr None
                 else case strategy a of
                        BiddingStrategy \<Rightarrow> Inl NotImplementedError
                      | MinimalDecrease c \<Rightarrow> Inr None
                      | Timed c \<Rightarrow> if s = None then Inl TypeError else Inr None)"
    proof (cases "max_bids a \<noteq> None \<and> bids_count a \<ge> the (max_bids a)")
      case True
      then show ?thesis using reg by (simp add: process_bid_def)
    next
      case False
      show ?thesis
      proof (cases "strategy a")
        case BiddingStrategy
        then show ?thesis using reg False by (simp add: process_bid_def Let_def)
      next
        case (MinimalDecrease c)
        have "should_bid (strategy a) rnd ?p =
            (fst (MinimalDecreaseStrategy_should_bid cp my_last_bid floor_price),
             Inr (False, MinimalDecrease c))"
          using mds MinimalDecrease cp mlb flo
          by (cases "MinimalDecreaseStrategy_should_bid cp my_last_bid floor_price") simp
        then show ?thesis using reg False MinimalDecrease
          by (simp add: process_bid_def Let_def)
      next
        case (Timed c)
        show ?thesis
        proof (cases s)
          case None
          then show ?thesis using reg False Timed secs
            by (simp add: process_bid_def Let_def)
        next
          case (Some sec)
          have "should_bid (strategy a) rnd ?p =
              (fst (TimedStrategy_should_bid c rnd sec cp my_last_bid floor_price),
               Inr (False, Timed c))"
            using timed[of c rnd sec] Timed cp mlb flo secs Some
            by (cases "TimedStrategy_should_bid c rnd sec cp my_last_bid floor_price") simp
          then show ?thesis using reg False Timed Some
            by (simp add: process_bid_def Let_def)
        qed
      qed
    qed
    from unchanged result show ?thesis by blast
  qed
  with mds timed show ?thesis by blast
qed

text \<open>
  Two consecutive calls in scenario C: the first two calls leave \<open>last_bid = 99.99\<close>;
  the next call at the same price 100.0 produces no bid and changes nothing.
\<close>

theorem baseline_rules_block_bid_witness:
  "snd (MinimalDecreaseStrategy_should_bid (Finite 100) (Some (py_float (9999 / 100)))
          (Some (Finite 90))) = False
   \<and> snd (TimedStrategy_should_bid scenario_C_strategy (\<lambda>i. 0) 30 (Finite 100)
            (Some (py_float (9999 / 100))) (Some (Finite 90)))
       = Inr (False, scenario_C_strategy)
   \<and> map_option last_bid (active_auctions scenario_C_after_bid ''C'')
       = Some (Some (py_float (9999 / 100)))
   \<and> snd (snd (process_bid scenario_C_after_bid 2 (\<lambda>i. 0) ''C'' (Finite 100) (Some 40) no_kwargs))
       = scenario_C_after_bid
   \<and> fst (snd (process_bid scenario_C_after_bid 2 (\<lambda>i. 0) ''C'' (Finite 100) (Some 40) no_kwargs))
       = Inr None"
proof -
  let ?a = "\<lparr>strategy = Timed \<lparr>bid_times = [60, 30, 10, 3], random_delay = False,
                                max_random_delay = 5, last_bid_time_index = 0\<rparr>,
             min_price = Some (Finite 90), max_bids = None, bids_count = 1,
             last_bid = Some (py_float (9999 / 100)), item_description = None, start_time = 0,
             bid_history = [\<lparr>bid_value = py_float (9999 / 100), bid_timestamp = 1,
                             bid_current_price = Finite 100\<rparr>]\<rparr>"
  have h: "(\<exists>b. Some (py_float (9999 / 100)) = Some b \<and> b \<le> Finite 100)
       \<or> (\<exists>f. Some (Finite 90) = Some f \<and> Finite 100 \<le> f)"
    using literal_below_100 by simp
  have reg: "active_auctions scenario_C_after_bid ''C'' = Some ?a"
    using scenario_C_after_bid_record by (simp add: Let_def)
  have p: "sp_my_last_bid (assemble_params ?a (Finite 100) (Some 40) no_kwargs)
      = Some (py_float (9999 / 100))"
    "sp_min_price (assemble_params ?a (Finite 100) (Some 40) no_kwargs) = Some (Finite 90)"
    by (simp_all add: assemble_params_def no_kwargs_def)
  show ?thesis
    using baseline_rules_block_bid[OF h, where t = scenario_C_strategy and rnd = "\<lambda>i. 0"
        and secs = 30 and m = scenario_C_after_bid and aid = "''C''" and a = ?a
        and s = "Some 40" and kw = no_kwargs and now = 2] reg p
    by simp
qed

subsection \<open>C6: bounds of an accepted bid\<close>




subsection \<open>C7: the threshold scan and its cursor\<close>

text \<open>
  C7. \<open>TimedStrategy.should_bid\<close> answers \<open>True\<close> only at the first index \<open>i\<close>, in
  the declared order of \<open>bid_times\<close>, that is strictly greater than
  \<open>last_bid_time_index\<close> and has \<open>seconds_remaining \<le>\<close> the (possibly jittered)
  threshold, and it then sets \<open>last_bid_time_index\<close> to \<open>i\<close>; when it answers \<open>False\<close>
  the instance is unchanged. When the baseline rules allow a bid and the jitter can be
  drawn, it answers \<open>True\<close> exactly if such an index exists. Over any sequence of calls
  on one instance the cursor never decreases, and the indices at which the calls fired
  are strictly increasing, so no index fires twice.
\<close>

theorem timed_should_bid_scan:
  "(snd (MinimalDecreaseStrategy_should_bid cp mlb mp)
      \<and> (random_delay t \<longrightarrow> 0 \<le> max_random_delay t)
    \<longrightarrow> (\<exists>i. fires_at t rnd secs i \<and> (\<forall>j < i. \<not> fires_at t rnd secs j)
              \<and> TimedStrategy_should_bid t rnd secs cp mlb mp =
                  ([(INFO, Dando_lance_programado secs)],
                   Inr (True, t\<lparr>last_bid_time_index := int i\<rparr>)))
         \<or> ((\<forall>i. \<not> fires_at t rnd secs i)
              \<and> TimedStrategy_should_bid t rnd secs cp mlb mp = ([], Inr (False, t))))
   \<and> (\<forall>ev ok t'. TimedStrategy_should_bid t rnd secs cp mlb mp = (ev, Inr (ok, t'))
        \<longrightarrow> (if ok
             then \<exists>i. fires_at t rnd secs i \<and> (\<forall>j < i. \<not> fires_at t rnd secs j)
                      \<and> t' = t\<lparr>last_bid_time_index := int i\<rparr>
             else t' = t)
            \<and> last_bid_time_index t \<le> last_bid_time_index t')
   \<and> sorted_wrt (<) (fst (fired_indices t cs))
   \<and> distinct (fst (fired_indices t cs))
   \<and> last_bid_time_index t \<le> last_bid_time_index (snd (fired_indices t cs))"
proof -
  have scan: "snd (MinimalDecreaseStrategy_should_bid cp mlb mp)
      \<and> (random_delay t \<longrightarrow> 0 \<le> max_random_delay t)
    \<longrightarrow> (\<exists>i. fires_at t rnd secs i \<and> (\<forall>j < i. \<not> fires_at t rnd secs j)
              \<and> TimedStrategy_should_bid t rnd secs cp mlb mp =
                  ([(INFO, Dando_lance_programado secs)],
                   Inr (True, t\<lparr>last_bid_time_index := int i\<rparr>)))
         \<or> ((\<forall>i. \<not> fires_at t rnd secs i)
              \<and> TimedStrategy_should_bid t rnd secs cp mlb mp = ([], Inr (False, t)))"
    using timed_should_bid_fires[of cp mlb mp t rnd secs] by blast
  have one: "(if ok
             then \<exists>i. fires_at t rnd secs i \<and> (\<forall>j < i. \<not> fires_at t rnd secs j)
                      \<and> t' = t\<lparr>last_bid_time_index := int i\<rparr>
             else t' = t)
            \<and> last_bid_time_index t \<le> last_bid_time_index t'"
    if r: "TimedStrategy_should_bid t rnd secs cp mlb mp = (ev, Inr (ok, t'))"
    for ev ok t'
  proof (cases ok)
    case True
    with timed_should_bid_True[of t rnd secs cp mlb mp ev t'] r
    have "\<exists>i. fires_at t rnd secs i \<and> (\<forall>j < i. \<not> fires_at t rnd secs j)
                      \<and> t' = t\<lparr>last_bid_time_index := int i\<rparr>"
      by simp
    moreover have "last_bid_time_index t \<le> last_bid_time_index t'"
      using timed_should_bid_cursor[OF r] True by simp
    ultimately show ?thesis using True by simp
  next
    case False
    then show ?thesis using timed_should_bid_cursor[OF r] by simp
  qed
  have srt: "sorted_wrt (<) (fst (fired_indices t cs))"
    and mono: "last_bid_time_index t \<le> last_bid_time_index (snd (fired_indices t cs))"
    using fired_indices_increasing[of t cs] by simp_all
  have dist: "distinct (fst (fired_indices t cs))"
    using srt by (simp add: strict_sorted_iff)
  from scan one srt dist mono show ?thesis by blast
qed

text \<open>
  A fresh scenario-C strategy called at 30 seconds fires at index 0 (the threshold 60,
  the first one not yet consumed); the nine calls of scenario C fire at the indices
  0, 1, 2, 3.
\<close>

theorem timed_should_bid_scan_witness:
  "TimedStrategy_should_bid scenario_C_strategy (\<lambda>i. 0) 30 (Finite 100) None (Some (Finite 90)) =
     ([(INFO, Dando_lance_programado 30)],
      Inr (True, \<lparr>bid_times = [60, 30, 10, 3], random_delay = False,
                  max_random_delay = 5, last_bid_time_index = 0\<rparr>))
   \<and> fires_at scenario_C_strategy (\<lambda>i. 0) 30 0
   \<and> (\<exists>i. fires_at scenario_C_strategy (\<lambda>i. 0) 30 i
          \<and> (\<forall>j < i. \<not> fires_at scenario_C_strategy (\<lambda>i. 0) 30 j)
          \<and> TimedStrategy_should_bid scenario_C_strategy (\<lambda>i. 0) 30 (Finite 100) None (Some (Finite 90)) =
              ([(INFO, Dando_lance_programado 30)],
               Inr (True, scenario_C_strategy\<lparr>last_bid_time_index := int i\<rparr>)))
   \<and> fst (fired_indices scenario_C_strategy scenario_C_policy_calls) = [0, 1, 2, 3]
   \<and> sorted_wrt (<) (fst (fired_indices scenario_C_strategy scenario_C_policy_calls))
   \<and> distinct (fst (fired_indices scenario_C_strategy scenario_C_policy_calls))
   \<and> last_bid_time_index (snd (fired_indices scenario_C_strategy scenario_C_policy_calls)) = 3"
proof -
  have eligible: "snd (MinimalDecreaseStrategy_should_bid (Finite 100) None (Some (Finite 90)))"
    by code_simp
  have jitter: "random_delay scenario_C_strategy \<longrightarrow> 0 \<le> max_random_delay scenario_C_strategy"
    by code_simp
  have eval: "TimedStrategy_should_bid scenario_C_strategy (\<lambda>i. 0) 30 (Finite 100) None (Some (Finite 90)) =
     ([(INFO, Dando_lance_programado 30)],
      Inr (True, \<lparr>bid_times = [60, 30, 10, 3], random_delay = False,
                  max_random_delay = 5, last_bid_time_index = 0\<rparr>))
   \<and> fires_at scenario_C_strategy (\<lambda>i. 0) 30 0
   \<and> fst (fired_indices scenario_C_strategy scenario_C_policy_calls) = [0, 1, 2, 3]
   \<and> last_bid_time_index (snd (fired_indices scenario_C_strategy scenario_C_policy_calls)) = 3"
    by code_simp
  note inst = timed_should_bid_scan[where cp = "Finite 100" and mlb = None and mp = "Some (Finite 90)"
      and t = scenario_C_strategy and rnd = "\<lambda>i. 0" and secs = 30
      and cs = scenario_C_policy_calls]
  from inst have seq: "sorted_wrt (<) (fst (fired_indices scenario_C_strategy scenario_C_policy_calls))
    \<and> distinct (fst (fired_indices scenario_C_strategy scenario_C_policy_calls))"
    by blast
  from inst eligible jitter
  have "(\<exists>i. fires_at scenario_C_strategy (\<lambda>i. 0) 30 i
          \<and> (\<forall>j < i. \<not> fires_at scenario_C_strategy (\<lambda>i. 0) 30 j)
          \<and> TimedStrategy_should_bid scenario_C_strategy (\<lambda>i. 0) 30 (Finite 100) None (Some (Finite 90)) =
              ([(INFO, Dando_lance_programado 30)],
               Inr (True, scenario_C_strategy\<lparr>last_bid_time_index := int i\<rparr>)))
       \<or> ((\<forall>i. \<not> fires_at scenario_C_strategy (\<lambda>i. 0) 30 i)
          \<and> TimedStrategy_should_bid scenario_C_strategy (\<lambda>i. 0) 30 (Finite 100) None (Some (Finite 90)) =
              ([], Inr (False, scenario_C_strategy)))"
    by blast
  with eval have "\<exists>i. fires_at scenario_C_strategy (\<lambda>i. 0) 30 i
          \<and> (\<forall>j < i. \<not> fires_at scenario_C_strategy (\<lambda>i. 0) 30 j)
          \<and> TimedStrategy_should_bid scenario_C_strategy (\<lambda>i. 0) 30 (Finite 100) None (Some (Finite 90)) =
              ([(INFO, Dando_lance_programado 30)],
               Inr (True, scenario_C_strategy\<lparr>last_bid_time_index := int i\<rparr>))"
    by blast
  with eval seq show ?thesis by blast
qed

subsection \<open>C8: the cap\<close>

text \<open>
  C8. For an auction with \<open>max_bids\<close> set and \<open>bids_count \<ge> max_bids\<close>, every
  \<open>process_bid\<close> call returns "no bid", emits only the cap event (no event of a
  strategy: neither \<open>should_bid\<close> nor \<open>calculate_bid\<close> is called, whatever the
  strategy is) and leaves the manager unchanged; so does every sequence of calls on
  that auction. In scenario D (\<open>max_bids = 1\<close>, one accepted bid) every later call at
  any price returns "no bid" and \<open>bids_count\<close> stays 1.
\<close>

theorem process_bid_cap_reached:
  assumes reg: "active_auctions m aid = Some a"
    and cap: "max_bids a = Some k"
    and full: "k \<le> bids_count a"
    and addressed: "\<forall>c \<in> set cs. call_id c = aid"
  shows "process_bid m now rnd aid p s kw =
           ([(INFO, Maximo_de_lances_atingido aid)], Inr None, m)
       \<and> process_bids m cs = (replicate (length cs) (Inr None), m)"
proof -
  have one: "\<And>now rnd p s kw. process_bid m now rnd aid p s kw =
           ([(INFO, Maximo_de_lances_atingido aid)], Inr None, m)"
    using reg cap full by (simp add: process_bid_def)
  have "process_bids m cs = (replicate (length cs) (Inr None), m)"
    using addressed
  proof (induction cs)
    case Nil
    then show ?case by simp
  next
    case (Cons c cs)
    then have "call_id c = aid" by simp
    then have "process_bid m (call_now c) (call_rnd c) (call_id c) (call_price c)
               (call_seconds c) (call_kwargs c) =
               ([(INFO, Maximo_de_lances_atingido aid)], Inr None, m)"
      using one by simp
    then show ?case using Cons by simp
  qed
  with one show ?thesis by blast
qed

theorem process_bid_cap_reached_witness:
  "fst (snd (process_bid scenario_D_registered 1 (\<lambda>i. 0) ''D'' (Finite 100) None no_kwargs))
     = Inr (Some (py_float (9999 / 100)))
   \<and> (\<forall>now rnd p s kw. process_bid scenario_D_after_bid now rnd ''D'' p s kw =
         ([(INFO, Maximo_de_lances_atingido ''D'')], Inr None, scenario_D_after_bid))
   \<and> map_option bids_count (active_auctions scenario_D_after_bid ''D'') = Some 1
   \<and> process_bids scenario_D_after_bid (tl scenario_D_calls) = ([Inr None], scenario_D_after_bid)"
proof -
  let ?a = "\<lparr>strategy = MinimalDecrease MinimalDecreaseStrategy_default,
             min_price = Some (Finite 90), max_bids = Some 1, bids_count = 1,
             last_bid = Some (py_float (9999 / 100)), item_description = None, start_time = 0,
             bid_history = [\<lparr>bid_value = py_float (9999 / 100), bid_timestamp = 1,
                             bid_current_price = Finite 100\<rparr>]\<rparr>"
  have reg: "active_auctions scenario_D_after_bid ''D'' = Some ?a"
    by (rule scenario_D_record)
  have cap: "max_bids ?a = Some 1" and full: "1 \<le> bids_count ?a"
    by simp_all
  have addressed: "\<forall>c \<in> set (tl scenario_D_calls). call_id c = ''D''"
    by (simp add: scenario_D_calls_def)
  have len: "length (tl scenario_D_calls) = 1"
    by (simp add: scenario_D_calls_def)
  have "\<And>now rnd p s kw. process_bid scenario_D_after_bid now rnd ''D'' p s kw =
         ([(INFO, Maximo_de_lances_atingido ''D'')], Inr None, scenario_D_after_bid)"
    using process_bid_cap_reached[OF reg cap full addressed] by blast
  moreover have "process_bids scenario_D_after_bid (tl scenario_D_calls)
      = ([Inr None], scenario_D_after_bid)"
    using process_bid_cap_reached[OF reg cap full addressed, of 0 "\<lambda>i. 0" "Finite 0" None no_kwargs]
      len
    by simp
  moreover have "map_option bids_count (active_auctions scenario_D_after_bid ''D'') = Some 1"
    using reg by simp
  ultimately show ?thesis using scenario_D_result by blast
qed

subsection \<open>C9: an identifier that is not registered\<close>

text \<open>
  C9. For an identifier that is not in the registry, \<open>process_bid\<close> returns "no bid"
  (it does not raise), emits exactly one warning event and returns the manager
  unchanged; in particular the identifier is still not registered afterwards.
\<close>

theorem process_bid_unknown_auction:
  assumes "active_auctions m aid = None"
  shows "process_bid m now rnd aid p s kw =
           ([(WARNING, Processar_nao_registrada aid)], Inr None, m)
       \<and> active_auctions (snd (snd (process_bid m now rnd aid p s kw))) aid = None"
  using assms by (simp add: process_bid_def)

theorem process_bid_unknown_auction_witness:
  "active_auctions scenario_D_after_bid ''E'' = None
   \<and> process_bid scenario_D_after_bid 3 (\<lambda>i. 0) ''E'' (Finite 100) (Some 30) no_kwargs =
       ([(WARNING, Processar_nao_registrada ''E'')], Inr None, scenario_D_after_bid)
   \<and> active_auctions
       (snd (snd (process_bid scenario_D_after_bid 3 (\<lambda>i. 0) ''E'' (Finite 100) (Some 30)
                    no_kwargs)))
       ''E'' = None"
proof -
  have h: "active_auctions scenario_D_after_bid ''E'' = None"
    by code_simp
  show ?thesis
    using h process_bid_unknown_auction[OF h, of 3 "\<lambda>i. 0" "Finite 100" "Some 30" no_kwargs]
    by blast
qed

subsection \<open>C10: a timed auction called without seconds_remaining\<close>

text \<open>
  C10, as amended. For every auction bound to a \<open>TimedStrategy\<close> whose cap is not
  reached (\<open>max_bids\<close> unset, or \<open>bids_count < max_bids\<close>), \<open>process_bid\<close> called with
  \<open>seconds_remaining\<close> omitted raises \<open>TypeError\<close> to the caller, whatever the extra
  keyword arguments are; no event is emitted and the manager is unchanged.
\<close>

theorem timed_without_seconds_raises:
  assumes "active_auctions m aid = Some a"
    and "strategy a = Timed t"
    and "max_bids a = None \<or> bids_count a < the (max_bids a)"
  shows "process_bid m now rnd aid cp None kw = ([], Inl TypeError, m)"
  using assms by (auto simp: process_bid_def Let_def assemble_params_def)

text \<open>
  The claim as stated fails once the cap is reached: the timed auction \<open>T\<close> has
  \<open>max_bids = 1\<close> and holds one bid, and a call without \<open>seconds_remaining\<close> returns
  "no bid".
\<close>

theorem timed_without_seconds_counterexample:
  "map_option strategy (active_auctions timed_capped_manager ''T'') =
     Some (Timed \<lparr>bid_times = [60, 30, 10, 3], random_delay = False,
                  max_random_delay = 5, last_bid_time_index = 0\<rparr>)
   \<and> map_option bids_count (active_auctions timed_capped_manager ''T'') = Some 1
   \<and> map_option max_bids (active_auctions timed_capped_manager ''T'') = Some (Some 1)
   \<and> fst (snd (process_bid timed_capped_manager 2 (\<lambda>i. 0) ''T'' (Finite 100) None no_kwargs))
       = Inr None"
  using timed_capped_record by (simp add: Let_def process_bid_def)

theorem timed_without_seconds_raises_witness:
  "active_auctions timed_open_manager ''U'' =
     Some \<lparr>strategy = Timed scenario_C_strategy, min_price = Some (Finite 90), max_bids = None,
           bids_count = 0, last_bid = None, item_description = None, start_time = 0,
           bid_history = []\<rparr>
   \<and> process_bid timed_open_manager 1 (\<lambda>i. 0) ''U'' (Finite 100) None no_kwargs =
       ([], Inl TypeError, timed_open_manager)"
proof -
  let ?a = "\<lparr>strategy = Timed scenario_C_strategy, min_price = Some (Finite 90),
             max_bids = None, bids_count = 0, last_bid = None, item_description = None,
             start_time = 0, bid_history = []\<rparr>"
  have reg: "active_auctions timed_open_manager ''U'' = Some ?a"
    by (simp add: timed_open_manager_def register_auction_def)
  have st: "strategy ?a = Timed scenario_C_strategy" by simp
  have open_cap: "max_bids ?a = None \<or> bids_count ?a < the (max_bids ?a)" by simp
  show ?thesis
    using reg timed_without_seconds_raises[OF reg st open_cap, of 1 "\<lambda>i. 0" "Finite 100" no_kwargs]
    by blast
qed

end
